theory Spec2Isabelle
  imports Complex_Main
begin

section \<open>The record store\<close>

text \<open>
  The handlers of \<^verbatim>\<open>api/bookings.js\<close>, \<^verbatim>\<open>api/rooms.js\<close> and the guests handler keep
  no state of their own: every read and write goes to three tables of a hosted store
  (\<^verbatim>\<open>guests\<close>, \<^verbatim>\<open>rooms\<close>, \<^verbatim>\<open>bookings\<close>). A table is the list of its rows. Ids are
  integers. Dates and timestamps are points of one integer time line (the order is all the
  handlers use); amounts are rationals.
\<close>

type_synonym instant = int

record guest =
  g_id :: int
  name :: string
  email :: string
  phone :: string
  address :: "string option"
  id_proof :: "string option"

record room =
  r_id :: int
  room_number :: string
  room_type :: string
  capacity :: int
  price_per_night :: rat
  is_available :: bool

record booking =
  b_id :: int
  guest_id :: int
  room_id :: int
  check_in_date :: instant
  check_out_date :: instant
  total_amount :: rat
  status :: string
  actual_check_in :: "instant option"
  actual_check_out :: "instant option"

record store =
  guests :: "guest list"
  rooms :: "room list"
  bookings :: "booking list"

subsection \<open>Store calls\<close>

text \<open>
  Awaiting a query of the store client yields an object \<^verbatim>\<open>{ data, error }\<close>; the await can
  also throw. Whether a call works is not decided by the handler, so every call takes a
  \<open>fault\<close>: \<open>Healthy\<close> (the store answers the query), \<open>Failing\<close> (the answer carries an
  error and no data) or \<open>Throwing\<close> (the await raises). A failed write leaves the table
  as it was.
\<close>

datatype fault = Healthy | Failing | Throwing

datatype 'a reply = Reply "'a option" bool | Rejected

definition select :: "fault \<Rightarrow> 'a list \<Rightarrow> 'a list reply" where
  "select f rows =
     (case f of
        Healthy \<Rightarrow> Reply (Some rows) False
      | Failing \<Rightarrow> Reply None True
      | Throwing \<Rightarrow> Rejected)"

text \<open>\<^verbatim>\<open>.single()\<close>: exactly one row, or an error and no data.\<close>

fun single :: "'a list reply \<Rightarrow> 'a reply" where
  "single Rejected = Rejected"
| "single (Reply (Some [r]) False) = Reply (Some r) False"
| "single (Reply _ _) = Reply None True"

text \<open>
  \<^verbatim>\<open>.update(patch)\<close> under a filter \<open>P\<close>: the rows that satisfy \<open>P\<close> are patched; the
  reply lists the patched rows (what \<^verbatim>\<open>.select()\<close> returns after an update).
\<close>

definition update_rows ::
  "fault \<Rightarrow> ('a \<Rightarrow> bool) \<Rightarrow> ('a \<Rightarrow> 'a) \<Rightarrow> 'a list \<Rightarrow> 'a list reply \<times> 'a list" where
  "update_rows f P patch rows =
     (case f of
        Healthy \<Rightarrow> (Reply (Some (map patch (filter P rows))) False,
                    map (\<lambda>r. if P r then patch r else r) rows)
      | Failing \<Rightarrow> (Reply None True, rows)
      | Throwing \<Rightarrow> (Rejected, rows))"

definition insert_row :: "fault \<Rightarrow> 'a \<Rightarrow> 'a list \<Rightarrow> 'a list reply \<times> 'a list" where
  "insert_row f row rows =
     (case f of
        Healthy \<Rightarrow> (Reply (Some [row]) False, rows @ [row])
      | Failing \<Rightarrow> (Reply None True, rows)
      | Throwing \<Rightarrow> (Rejected, rows))"

definition delete_rows :: "fault \<Rightarrow> ('a \<Rightarrow> bool) \<Rightarrow> 'a list \<Rightarrow> 'a list reply \<times> 'a list" where
  "delete_rows f P rows =
     (case f of
        Healthy \<Rightarrow> (Reply None False, filter (\<lambda>r. \<not> P r) rows)
      | Failing \<Rightarrow> (Reply None True, rows)
      | Throwing \<Rightarrow> (Rejected, rows))"

text \<open>The id the store gives a new row: above every id of the table.\<close>

definition fresh_id :: "int list \<Rightarrow> int" where
  "fresh_id ids = fold max ids 0 + 1"

section \<open>Responses\<close>

text \<open>
  A handler ends by sending one response, \<^verbatim>\<open>res.status(code).json(body)\<close>, or by an
  exception that leaves it (\<open>Uncaught\<close>; the dispatcher's \<^verbatim>\<open>catch\<close> then answers 500).
  A validation detail is the path of the offending key and the kind of violation: the
  message the validator renders from the two.
\<close>

datatype violation =
    any_required | any_only | any_ref
  | string_base | string_empty | string_min | string_max | string_email | string_pattern
  | number_base | number_unsafe | number_integer | number_positive | number_min | number_max
  | number_precision
  | date_base | date_format | date_min
  | boolean_base
  | object_unknown | object_min

type_synonym detail = "string \<times> violation"

datatype body =
    Error string
  | ValidationFailed "detail list"
  | Message string
  | MessageBooking string "booking option"
  | BookingJoined "booking option" "(int \<times> string \<times> string) option"
      "(int \<times> string \<times> string) option"
  | BookingData "booking option"
  | RoomData "room option"
  | GuestData "guest option"

datatype response = Sent nat body | Uncaught

fun succeeded :: "response \<Rightarrow> bool" where
  "succeeded (Sent code _) = (code = 200 \<or> code = 201)"
| "succeeded Uncaught = False"

section \<open>Validation\<close>

text \<open>
  The handlers validate a request body with schemas of the validation library, called as
  \<^verbatim>\<open>schema.validate(data)\<close> with no options. The library is not part of the repository.
  What it decides about a single value is taken as a parameter, the record \<open>joi\<close>:
  whether a string is an e-mail address, whether it matches the pattern of a phone number
  (\<^verbatim>\<open>/^[\d\s\-\+\(\)]+$/\<close>, the one pattern of the schemas), the date a value in ISO 8601
  format stands for, the number or the boolean a string is read as, the number that
  \<^verbatim>\<open>Math.round(x * 10^n) / 10^n\<close> gives on the runtime's floating-point numbers, and the
  clock behind \<^verbatim>\<open>min('now')\<close>.
  What is modelled here is how a schema is run: the keys in the order of the schema, the
  rules of a key in the order they are written, then the keys the schema does not know,
  then the \<^verbatim>\<open>.min(1)\<close> of the object; and, since no option is passed, the library's
  default \<^verbatim>\<open>abortEarly: true\<close>: the run stops at the first violation, and the error
  carries that one detail.

  A body is a JSON object: its keys (taken to be distinct) with their values. Numbers are
  rationals; arrays and nested objects, which no schema here accepts, are \<open>JCompound\<close>.
\<close>

datatype jvalue = JNull | JBool bool | JNum rat | JStr string | JCompound

type_synonym payload = "(string \<times> jvalue) list"

record joi =
  is_email :: "string \<Rightarrow> bool"
  is_phone :: "string \<Rightarrow> bool"
  iso_date :: "jvalue \<Rightarrow> instant option"
  to_number :: "string \<Rightarrow> rat option"
  to_boolean :: "string \<Rightarrow> bool option"
  round_number :: "nat \<Rightarrow> rat \<Rightarrow> rat"
  date_now :: instant

text \<open>The validated value: the body after the library's conversions.\<close>

datatype cvalue = VStr string | VNum rat | VDate instant | VBool bool

type_synonym converted = "(string \<times> cvalue) list"

datatype rule =
    StringMin nat | StringMax nat | StringEmail | StringPattern
  | NumberInteger | NumberPositive | NumberMin rat | NumberMax rat | NumberPrecision nat
  | DateMinNow | DateMinRef string

datatype scalar =
    JoiString "rule list"
  | JoiStringValid "string list"
  | JoiNumber "rule list"
  | JoiDateIso "rule list"
  | JoiBoolean

datatype presence = Required | Optional

type_synonym keys = "(string \<times> scalar \<times> presence) list"

text \<open>\<open>JoiObject ks n\<close>: \<^verbatim>\<open>Joi.object({...}).min(n)\<close>; \<open>n = 0\<close> when there is no \<^verbatim>\<open>.min\<close>.\<close>

datatype object_schema = JoiObject keys nat

fun rules_of :: "scalar \<Rightarrow> rule list" where
  "rules_of (JoiString rs) = rs"
| "rules_of (JoiNumber rs) = rs"
| "rules_of (JoiDateIso rs) = rs"
| "rules_of (JoiStringValid _) = []"
| "rules_of JoiBoolean = []"

fun precision_of :: "rule list \<Rightarrow> nat option" where
  "precision_of [] = None"
| "precision_of (NumberPrecision n # rs) = Some n"
| "precision_of (_ # rs) = precision_of rs"

definition max_safe :: rat where
  "max_safe = 2 ^ 53 - 1"

text \<open>
  The base type of a key. A string must be a string and not empty. An allow-list
  (\<^verbatim>\<open>.valid(...)\<close>) admits its members only. A number is a number or a string read as
  one, rounded where the schema has \<^verbatim>\<open>.precision(n)\<close> (the library converts by default),
  and within the safe integers. A date is whatever the library reads as an ISO date; a
  string it does not read so has the wrong format, any other value is no date at all.
\<close>

fun coerce :: "joi \<Rightarrow> scalar \<Rightarrow> jvalue \<Rightarrow> violation + cvalue" where
  "coerce lib (JoiString rs) v =
     (case v of
        JStr s \<Rightarrow> if s = [] then Inl string_empty else Inr (VStr s)
      | _ \<Rightarrow> Inl string_base)"
| "coerce lib (JoiStringValid vs) v =
     (case v of
        JStr s \<Rightarrow> if s \<in> set vs then Inr (VStr s) else Inl any_only
      | _ \<Rightarrow> Inl any_only)"
| "coerce lib (JoiNumber rs) v =
     (case (case v of JNum r \<Rightarrow> Some r | JStr s \<Rightarrow> to_number lib s | _ \<Rightarrow> None) of
        None \<Rightarrow> Inl number_base
      | Some r \<Rightarrow>
          if r > max_safe \<or> r < - max_safe then Inl number_unsafe
          else Inr (VNum (case precision_of rs of
                            None \<Rightarrow> r
                          | Some n \<Rightarrow> round_number lib n r)))"
| "coerce lib (JoiDateIso rs) v =
     (case iso_date lib v of
        None \<Rightarrow> (case v of JStr s \<Rightarrow> Inl date_format | _ \<Rightarrow> Inl date_base)
      | Some t \<Rightarrow> Inr (VDate t))"
| "coerce lib JoiBoolean v =
     (case v of
        JBool b \<Rightarrow> Inr (VBool b)
      | JStr s \<Rightarrow> (case to_boolean lib s of None \<Rightarrow> Inl boolean_base | Some b \<Rightarrow> Inr (VBool b))
      | _ \<Rightarrow> Inl boolean_base)"

text \<open>
  One rule on a converted value; \<open>sib\<close> gives the converted values of the keys before
  it (for \<^verbatim>\<open>Joi.ref\<close>).
\<close>

fun broken :: "joi \<Rightarrow> (string \<Rightarrow> cvalue option) \<Rightarrow> rule \<Rightarrow> cvalue \<Rightarrow> violation option" where
  "broken lib sib (StringMin n) (VStr s) = (if length s < n then Some string_min else None)"
| "broken lib sib (StringMax n) (VStr s) = (if length s > n then Some string_max else None)"
| "broken lib sib StringEmail (VStr s) = (if is_email lib s then None else Some string_email)"
| "broken lib sib StringPattern (VStr s) = (if is_phone lib s then None else Some string_pattern)"
| "broken lib sib NumberInteger (VNum r) =
     (if of_int \<lfloor>r\<rfloor> = r then None else Some number_integer)"
| "broken lib sib NumberPositive (VNum r) = (if r > 0 then None else Some number_positive)"
| "broken lib sib (NumberMin m) (VNum r) = (if r < m then Some number_min else None)"
| "broken lib sib (NumberMax m) (VNum r) = (if r > m then Some number_max else None)"
| "broken lib sib (NumberPrecision n) (VNum r) =
     (if of_int \<lfloor>r * 10 ^ n\<rfloor> = r * 10 ^ n then None else Some number_precision)"
| "broken lib sib DateMinNow (VDate t) = (if t < date_now lib then Some date_min else None)"
| "broken lib sib (DateMinRef k) (VDate t) =
     (case sib k of
        Some (VDate t') \<Rightarrow> if t < t' then Some date_min else None
      | _ \<Rightarrow> Some any_ref)"
| "broken lib sib _ _ = None"

fun first_broken ::
  "joi \<Rightarrow> (string \<Rightarrow> cvalue option) \<Rightarrow> rule list \<Rightarrow> cvalue \<Rightarrow> violation option" where
  "first_broken lib sib [] c = None"
| "first_broken lib sib (r # rs) c =
     (case broken lib sib r c of
        Some e \<Rightarrow> Some e
      | None \<Rightarrow> first_broken lib sib rs c)"

text \<open>One key of the schema against the body: its violation, or its converted value.\<close>

definition check_key ::
  "joi \<Rightarrow> (string \<Rightarrow> cvalue option) \<Rightarrow> scalar \<Rightarrow> presence \<Rightarrow> jvalue option \<Rightarrow>
   violation + cvalue option" where
  "check_key lib sib sc pr v =
     (case v of
        None \<Rightarrow> (case pr of Required \<Rightarrow> Inl any_required | Optional \<Rightarrow> Inr None)
      | Some x \<Rightarrow>
          (case coerce lib sc x of
             Inl e \<Rightarrow> Inl e
           | Inr c \<Rightarrow>
               (case first_broken lib sib (rules_of sc) c of
                  Some e \<Rightarrow> Inl e
                | None \<Rightarrow> Inr (Some c))))"

text \<open>The keys in schema order, stopping at the first violation.\<close>

fun check_keys :: "joi \<Rightarrow> payload \<Rightarrow> keys \<Rightarrow> converted \<Rightarrow> detail + converted" where
  "check_keys lib p [] acc = Inr acc"
| "check_keys lib p ((k, sc, pr) # ks) acc =
     (case check_key lib (map_of acc) sc pr (map_of p k) of
        Inl e \<Rightarrow> Inl (k, e)
      | Inr None \<Rightarrow> check_keys lib p ks acc
      | Inr (Some c) \<Rightarrow> check_keys lib p ks (acc @ [(k, c)]))"

definition unknown_keys :: "keys \<Rightarrow> payload \<Rightarrow> string list" where
  "unknown_keys ks p = filter (\<lambda>k. k \<notin> set (map fst ks)) (map fst p)"

text \<open>
  \<^verbatim>\<open>schema.validate(data)\<close>: \<open>Inl\<close> is \<^verbatim>\<open>error.details\<close>, \<open>Inr\<close> is \<^verbatim>\<open>value\<close>.
\<close>

fun validate :: "joi \<Rightarrow> object_schema \<Rightarrow> payload \<Rightarrow> detail list + converted" where
  "validate lib (JoiObject ks n) p =
     (case check_keys lib p ks [] of
        Inl d \<Rightarrow> Inl [d]
      | Inr v \<Rightarrow>
          (case unknown_keys ks p of
             k # _ \<Rightarrow> Inl [(k, object_unknown)]
           | [] \<Rightarrow> if length p < n then Inl [(''value'', object_min)] else Inr v))"

text \<open>
  The fields an input violates, all of them: the reading of the specification, which the
  run above is compared with. A key of the schema is violated when its own check fails;
  a key the schema does not know is violated; the object is (path \<open>value\<close>) when it has
  fewer keys than \<^verbatim>\<open>.min\<close> asks.
\<close>

fun violated_keys :: "joi \<Rightarrow> payload \<Rightarrow> keys \<Rightarrow> converted \<Rightarrow> string list" where
  "violated_keys lib p [] acc = []"
| "violated_keys lib p ((k, sc, pr) # ks) acc =
     (case check_key lib (map_of acc) sc pr (map_of p k) of
        Inl e \<Rightarrow> k # violated_keys lib p ks acc
      | Inr None \<Rightarrow> violated_keys lib p ks acc
      | Inr (Some c) \<Rightarrow> violated_keys lib p ks (acc @ [(k, c)]))"

fun all_violated_fields :: "joi \<Rightarrow> object_schema \<Rightarrow> payload \<Rightarrow> string list" where
  "all_violated_fields lib (JoiObject ks n) p =
     violated_keys lib p ks [] @ unknown_keys ks p @ (if length p < n then [''value''] else [])"

subsection \<open>The schemas of the handlers\<close>

definition booking_statuses :: "string list" where
  "booking_statuses = [''booked'', ''checked_in'', ''checked_out'', ''cancelled'']"

definition room_types :: "string list" where
  "room_types = [''single'', ''double'', ''suite'', ''dorm'']"

definition bookingSchema :: object_schema where
  "bookingSchema = JoiObject
     [(''guest_id'', JoiNumber [NumberInteger, NumberPositive], Required),
      (''room_id'', JoiNumber [NumberInteger, NumberPositive], Required),
      (''check_in_date'', JoiDateIso [DateMinNow], Required),
      (''check_out_date'', JoiDateIso [DateMinRef ''check_in_date''], Required),
      (''total_amount'', JoiNumber [NumberPositive, NumberPrecision 2], Required)] 0"

definition updateBookingSchema :: object_schema where
  "updateBookingSchema = JoiObject
     [(''guest_id'', JoiNumber [NumberInteger, NumberPositive], Optional),
      (''room_id'', JoiNumber [NumberInteger, NumberPositive], Optional),
      (''check_in_date'', JoiDateIso [], Optional),
      (''check_out_date'', JoiDateIso [], Optional),
      (''total_amount'', JoiNumber [NumberPositive, NumberPrecision 2], Optional),
      (''status'', JoiStringValid booking_statuses, Optional)] 1"

definition roomSchema :: object_schema where
  "roomSchema = JoiObject
     [(''room_number'', JoiString [StringMin 1, StringMax 20], Required),
      (''room_type'', JoiStringValid room_types, Required),
      (''capacity'', JoiNumber [NumberInteger, NumberMin 1, NumberMax 20], Required),
      (''price_per_night'', JoiNumber [NumberPositive, NumberPrecision 2], Required)] 0"

definition updateRoomSchema :: object_schema where
  "updateRoomSchema = JoiObject
     [(''room_number'', JoiString [StringMin 1, StringMax 20], Optional),
      (''room_type'', JoiStringValid room_types, Optional),
      (''capacity'', JoiNumber [NumberInteger, NumberMin 1, NumberMax 20], Optional),
      (''price_per_night'', JoiNumber [NumberPositive, NumberPrecision 2], Optional),
      (''is_available'', JoiBoolean, Optional)] 1"

definition guestSchema :: object_schema where
  "guestSchema = JoiObject
     [(''name'', JoiString [StringMin 2, StringMax 100], Required),
      (''email'', JoiString [StringEmail], Required),
      (''phone'', JoiString [StringPattern, StringMin 10], Required),
      (''address'', JoiString [StringMax 500], Optional),
      (''id_proof'', JoiString [StringMax 100], Optional)] 0"

definition updateGuestSchema :: object_schema where
  "updateGuestSchema = JoiObject
     [(''name'', JoiString [StringMin 2, StringMax 100], Optional),
      (''email'', JoiString [StringEmail], Optional),
      (''phone'', JoiString [StringPattern, StringMin 10], Optional),
      (''address'', JoiString [StringMax 500], Optional),
      (''id_proof'', JoiString [StringMax 100], Optional)] 1"

subsection \<open>Reading the validated value\<close>

text \<open>
  \<^verbatim>\<open>value.key\<close> at the type its schema gives it. The defaults stand for \<^verbatim>\<open>undefined\<close>;
  a key that its schema requires is never read as one (\<open>bookingSchema_value\<close>,
  \<open>roomSchema_value\<close> and \<open>guestSchema_value\<close> below).
\<close>

definition vnum :: "converted \<Rightarrow> string \<Rightarrow> rat option" where
  "vnum v k = (case map_of v k of Some (VNum r) \<Rightarrow> Some r | _ \<Rightarrow> None)"

definition vint :: "converted \<Rightarrow> string \<Rightarrow> int option" where
  "vint v k = (case map_of v k of Some (VNum r) \<Rightarrow> Some \<lfloor>r\<rfloor> | _ \<Rightarrow> None)"

definition vstr :: "converted \<Rightarrow> string \<Rightarrow> string option" where
  "vstr v k = (case map_of v k of Some (VStr s) \<Rightarrow> Some s | _ \<Rightarrow> None)"

definition vdate :: "converted \<Rightarrow> string \<Rightarrow> instant option" where
  "vdate v k = (case map_of v k of Some (VDate t) \<Rightarrow> Some t | _ \<Rightarrow> None)"

definition vbool :: "converted \<Rightarrow> string \<Rightarrow> bool option" where
  "vbool v k = (case map_of v k of Some (VBool b) \<Rightarrow> Some b | _ \<Rightarrow> None)"

definition or_else :: "'a option \<Rightarrow> 'a \<Rightarrow> 'a" where
  "or_else x d = (case x of Some y \<Rightarrow> y | None \<Rightarrow> d)"

section \<open>Booking lifecycle: \<^verbatim>\<open>api/bookings.js\<close>\<close>

text \<open>
  The argument \<open>flt\<close> gives the fault of the handler's store calls, numbered from 0 in
  the order of the source. \<open>bookingId\<close> is \<^verbatim>\<open>query.id\<close>: \<open>None\<close> when it is missing or
  empty. \<open>now\<close> is the clock read by \<^verbatim>\<open>new Date()\<close>.
\<close>

definition handleCheckIn ::
  "(nat \<Rightarrow> fault) \<Rightarrow> instant \<Rightarrow> int option \<Rightarrow> store \<Rightarrow> response \<times> store" where
  "handleCheckIn flt now bookingId st =
     (case bookingId of
        None \<Rightarrow> (Sent 400 (Error ''Booking ID is required''), st)
      | Some bid \<Rightarrow>
          (case single (select (flt 0) (filter (\<lambda>b. b_id b = bid) (bookings st))) of
             Rejected \<Rightarrow> (Uncaught, st)
           | Reply None _ \<Rightarrow> (Sent 404 (Error ''Booking not found''), st)
           | Reply (Some booking) bookingError \<Rightarrow>
               if bookingError then (Sent 404 (Error ''Booking not found''), st)
               else if status booking \<noteq> ''booked''
               then (Sent 400 (Error ''Only booked reservations can be checked in''), st)
               else
                 (case update_rows (flt 1) (\<lambda>b. b_id b = bid)
                         (\<lambda>b. b\<lparr>status := ''checked_in'', actual_check_in := Some now\<rparr>)
                         (bookings st) of
                    (upd, bs) \<Rightarrow>
                      (case single upd of
                         Rejected \<Rightarrow> (Uncaught, st\<lparr>bookings := bs\<rparr>)
                       | Reply d err \<Rightarrow>
                           if err
                           then (Sent 500 (Error ''Failed to check in guest''), st\<lparr>bookings := bs\<rparr>)
                           else (Sent 200 (MessageBooking ''Guest checked in successfully'' d),
                                 st\<lparr>bookings := bs\<rparr>)))))"

definition handleCheckOut ::
  "(nat \<Rightarrow> fault) \<Rightarrow> instant \<Rightarrow> int option \<Rightarrow> store \<Rightarrow> response \<times> store" where
  "handleCheckOut flt now bookingId st =
     (case bookingId of
        None \<Rightarrow> (Sent 400 (Error ''Booking ID is required''), st)
      | Some bid \<Rightarrow>
          (case single (select (flt 0) (filter (\<lambda>b. b_id b = bid) (bookings st))) of
             Rejected \<Rightarrow> (Uncaught, st)
           | Reply None _ \<Rightarrow> (Sent 404 (Error ''Booking not found''), st)
           | Reply (Some booking) bookingError \<Rightarrow>
               if bookingError then (Sent 404 (Error ''Booking not found''), st)
               else if status booking \<noteq> ''checked_in''
               then (Sent 400 (Error ''Only checked-in guests can be checked out''), st)
               else
                 (case update_rows (flt 1) (\<lambda>b. b_id b = bid)
                         (\<lambda>b. b\<lparr>status := ''checked_out'', actual_check_out := Some now\<rparr>)
                         (bookings st) of
                    (upd, bs) \<Rightarrow>
                      (case single upd of
                         Rejected \<Rightarrow> (Uncaught, st\<lparr>bookings := bs\<rparr>)
                       | Reply d err \<Rightarrow>
                           if err
                           then (Sent 500 (Error ''Failed to check out guest''), st\<lparr>bookings := bs\<rparr>)
                           else
                             (case update_rows (flt 2) (\<lambda>r. r_id r = room_id booking)
                                     (\<lambda>r. r\<lparr>is_available := True\<rparr>) (rooms st) of
                                (Rejected, rs) \<Rightarrow> (Uncaught, st\<lparr>bookings := bs, rooms := rs\<rparr>)
                              | (Reply _ roomError, rs) \<Rightarrow>
                                  \<comment> \<open>\<open>roomError\<close> is logged, nothing else\<close>
                                  (Sent 200 (MessageBooking ''Guest checked out successfully'' d),
                                   st\<lparr>bookings := bs, rooms := rs\<rparr>))))))"

definition handleCancelBooking ::
  "(nat \<Rightarrow> fault) \<Rightarrow> int option \<Rightarrow> store \<Rightarrow> response \<times> store" where
  "handleCancelBooking flt bookingId st =
     (case bookingId of
        None \<Rightarrow> (Sent 400 (Error ''Booking ID is required''), st)
      | Some bid \<Rightarrow>
          (case single (select (flt 0) (filter (\<lambda>b. b_id b = bid) (bookings st))) of
             Rejected \<Rightarrow> (Uncaught, st)
           | Reply None _ \<Rightarrow> (Sent 404 (Error ''Booking not found''), st)
           | Reply (Some booking) bookingError \<Rightarrow>
               if bookingError then (Sent 404 (Error ''Booking not found''), st)
               else if status booking = ''checked_in''
               then (Sent 400 (Error ''Cannot cancel a booking for a checked-in guest''), st)
               else if status booking = ''cancelled''
               then (Sent 400 (Error ''Booking is already cancelled''), st)
               else if status booking = ''checked_out''
               then (Sent 400 (Error ''Cannot cancel a completed booking''), st)
               else
                 (case update_rows (flt 1) (\<lambda>b. b_id b = bid)
                         (\<lambda>b. b\<lparr>status := ''cancelled''\<rparr>) (bookings st) of
                    (Rejected, bs) \<Rightarrow> (Uncaught, st\<lparr>bookings := bs\<rparr>)
                  | (Reply _ err, bs) \<Rightarrow>
                      if err
                      then (Sent 500 (Error ''Failed to cancel booking''), st\<lparr>bookings := bs\<rparr>)
                      else
                        (case update_rows (flt 2) (\<lambda>r. r_id r = room_id booking)
                                (\<lambda>r. r\<lparr>is_available := True\<rparr>) (rooms st) of
                           (Rejected, rs) \<Rightarrow> (Uncaught, st\<lparr>bookings := bs, rooms := rs\<rparr>)
                         | (Reply _ roomError, rs) \<Rightarrow>
                             \<comment> \<open>\<open>roomError\<close> is logged, nothing else\<close>
                             (Sent 200 (Message ''Booking cancelled successfully''),
                              st\<lparr>bookings := bs, rooms := rs\<rparr>)))))"

subsection \<open>CreateBooking\<close>

definition active_statuses :: "string list" where
  "active_statuses = [''booked'', ''checked_in'']"

text \<open>The row of \<^verbatim>\<open>insert([{ ...value, status: 'booked' }])\<close>, with the id the store gives it.\<close>

definition new_booking :: "converted \<Rightarrow> int \<Rightarrow> booking" where
  "new_booking v i =
     \<lparr>b_id = i,
      guest_id = or_else (vint v ''guest_id'') 0,
      room_id = or_else (vint v ''room_id'') 0,
      check_in_date = or_else (vdate v ''check_in_date'') 0,
      check_out_date = or_else (vdate v ''check_out_date'') 0,
      total_amount = or_else (vnum v ''total_amount'') 0,
      status = ''booked'',
      actual_check_in = None,
      actual_check_out = None\<rparr>"

text \<open>
  The conflict query:
  \<^verbatim>\<open>.eq('room_id', r).in('status', ['booked', 'checked_in']).or(`check_in_date.lte.${value.check_out_date},check_out_date.gte.${value.check_in_date}`)\<close>.
  The conditions of an \<^verbatim>\<open>.or(...)\<close> filter are joined by OR; the filter as a whole is
  joined to the others by AND (\<open>conflict_filter\<close>).

  The two operands are written into the filter by a template literal. The validated
  dates are \<^verbatim>\<open>Date\<close> objects (the schema is \<^verbatim>\<open>Joi.date()\<close>, and the library converts), and a
  template literal renders a \<^verbatim>\<open>Date\<close> object by \<^verbatim>\<open>Date.prototype.toString\<close>: text such as
  \<^verbatim>\<open>Fri Jan 25 2030 00:00:00 GMT+0000 (Coordinated Universal Time)\<close>, not an ISO date. In
  the grammar of the store's filters an operand ends at the first comma or closing
  parenthesis, so the store does not read this text as an operand: it answers the
  query with an error. \<open>IsoText\<close> is the operand the store would read; the handler sends
  \<open>DateToString\<close>.
\<close>

datatype operand = IsoText instant | DateToString instant

fun read_operand :: "operand \<Rightarrow> instant option" where
  "read_operand (IsoText t) = Some t"
| "read_operand (DateToString t) = None"

definition conflict_filter :: "int \<Rightarrow> instant \<Rightarrow> instant \<Rightarrow> booking \<Rightarrow> bool" where
  "conflict_filter rid check_in check_out b =
     (room_id b = rid \<and> status b \<in> set active_statuses \<and>
      (check_in_date b \<le> check_out \<or> check_out_date b \<ge> check_in))"

text \<open>
  \<open>conflict_query f rid lte gte rows\<close>: the query with the operand \<open>lte\<close> after
  \<^verbatim>\<open>check_in_date.lte.\<close> and the operand \<open>gte\<close> after \<^verbatim>\<open>check_out_date.gte.\<close>.
\<close>

definition conflict_query ::
  "fault \<Rightarrow> int \<Rightarrow> operand \<Rightarrow> operand \<Rightarrow> booking list \<Rightarrow> booking list reply" where
  "conflict_query f rid lte gte rows =
     (case (read_operand lte, read_operand gte) of
        (Some check_out, Some check_in) \<Rightarrow>
          select f (filter (conflict_filter rid check_in check_out) rows)
      | _ \<Rightarrow> (case f of Throwing \<Rightarrow> Rejected | _ \<Rightarrow> Reply None True))"

text \<open>
  The embedded resources of the select after the insert:
  \<^verbatim>\<open>guest:guests(id, name, email)\<close> and \<^verbatim>\<open>room:rooms(id, room_number, room_type)\<close>.
\<close>

definition guest_summary :: "store \<Rightarrow> int \<Rightarrow> (int \<times> string \<times> string) option" where
  "guest_summary st i =
     map_option (\<lambda>g. (g_id g, name g, email g)) (find (\<lambda>g. g_id g = i) (guests st))"

definition room_summary :: "store \<Rightarrow> int \<Rightarrow> (int \<times> string \<times> string) option" where
  "room_summary st i =
     map_option (\<lambda>r. (r_id r, room_number r, room_type r)) (find (\<lambda>r. r_id r = i) (rooms st))"

text \<open>
  The conflict check of \<open>handleCreateBooking\<close>, lines 167 to 186: \<open>True\<close> when the
  handler answers "Room is already booked for these dates". An error of the query and an
  exception (the \<^verbatim>\<open>try\<close>/\<^verbatim>\<open>catch\<close> around it) both let the handler go on.
\<close>

definition conflict_found :: "fault \<Rightarrow> int \<Rightarrow> instant \<Rightarrow> instant \<Rightarrow> store \<Rightarrow> bool" where
  "conflict_found f rid check_in check_out st =
     (case conflict_query f rid (DateToString check_out) (DateToString check_in)
             (bookings st) of
        Rejected \<Rightarrow> False
      | Reply conflicts conflictError \<Rightarrow>
          if conflictError then False
          else (case conflicts of Some (c # cs) \<Rightarrow> True | _ \<Rightarrow> False))"

definition handleCreateBooking ::
  "joi \<Rightarrow> (nat \<Rightarrow> fault) \<Rightarrow> payload \<Rightarrow> store \<Rightarrow> response \<times> store" where
  "handleCreateBooking lib flt bookingData st =
     (case validate lib bookingSchema bookingData of
        Inl details \<Rightarrow> (Sent 400 (ValidationFailed details), st)
      | Inr v \<Rightarrow>
          (let gid = or_else (vint v ''guest_id'') 0;
               rid = or_else (vint v ''room_id'') 0;
               check_in = or_else (vdate v ''check_in_date'') 0;
               check_out = or_else (vdate v ''check_out_date'') 0
           in
           case single (select (flt 0) (filter (\<lambda>g. g_id g = gid) (guests st))) of
             Rejected \<Rightarrow> (Uncaught, st)
           | Reply guest guestError \<Rightarrow>
               if guestError \<or> guest = None then (Sent 400 (Error ''Guest not found''), st)
               else
                 (case single (select (flt 1) (filter (\<lambda>r. r_id r = rid) (rooms st))) of
                    Rejected \<Rightarrow> (Uncaught, st)
                  | Reply None _ \<Rightarrow> (Sent 400 (Error ''Room not found''), st)
                  | Reply (Some room) roomError \<Rightarrow>
                      if roomError then (Sent 400 (Error ''Room not found''), st)
                      else if \<not> is_available room
                      then (Sent 400 (Error ''Room is not available''), st)
                      else if conflict_found (flt 2) rid check_in check_out st
                      then (Sent 400 (Error ''Room is already booked for these dates''), st)
                      else
                        (case insert_row (flt 3)
                                (new_booking v (fresh_id (map b_id (bookings st))))
                                (bookings st) of
                           (ins, bs) \<Rightarrow>
                             (case single ins of
                                Rejected \<Rightarrow> (Uncaught, st\<lparr>bookings := bs\<rparr>)
                              | Reply data createError \<Rightarrow>
                                  if createError
                                  then (Sent 500 (Error ''Failed to create booking''),
                                        st\<lparr>bookings := bs\<rparr>)
                                  else
                                    (case update_rows (flt 4) (\<lambda>r. r_id r = rid)
                                            (\<lambda>r. r\<lparr>is_available := False\<rparr>) (rooms st) of
                                       (Rejected, rs) \<Rightarrow>
                                         (Uncaught, st\<lparr>bookings := bs, rooms := rs\<rparr>)
                                     | (Reply _ updateError, rs) \<Rightarrow>
                                         \<comment> \<open>\<open>updateError\<close> is logged, nothing else\<close>
                                         (Sent 201
                                            (BookingJoined data (guest_summary st gid)
                                               (room_summary st rid)),
                                          st\<lparr>bookings := bs, rooms := rs\<rparr>)))))))"

subsection \<open>UpdateBooking\<close>

text \<open>\<^verbatim>\<open>.update(value)\<close>: the keys of the validated value overwrite the columns of the row.\<close>

definition patch_booking :: "converted \<Rightarrow> booking \<Rightarrow> booking" where
  "patch_booking v b =
     b\<lparr>guest_id := or_else (vint v ''guest_id'') (guest_id b),
       room_id := or_else (vint v ''room_id'') (room_id b),
       check_in_date := or_else (vdate v ''check_in_date'') (check_in_date b),
       check_out_date := or_else (vdate v ''check_out_date'') (check_out_date b),
       total_amount := or_else (vnum v ''total_amount'') (total_amount b),
       status := or_else (vstr v ''status'') (status b)\<rparr>"

definition handleUpdateBooking ::
  "joi \<Rightarrow> (nat \<Rightarrow> fault) \<Rightarrow> int option \<Rightarrow> payload \<Rightarrow> store \<Rightarrow> response \<times> store" where
  "handleUpdateBooking lib flt bookingId bookingData st =
     (case bookingId of
        None \<Rightarrow> (Sent 400 (Error ''Booking ID is required''), st)
      | Some bid \<Rightarrow>
          (case validate lib updateBookingSchema bookingData of
             Inl details \<Rightarrow> (Sent 400 (ValidationFailed details), st)
           | Inr v \<Rightarrow>
               (case single (select (flt 0) (filter (\<lambda>b. b_id b = bid) (bookings st))) of
                  Rejected \<Rightarrow> (Uncaught, st)
                | Reply existingBooking fetchError \<Rightarrow>
                    if existingBooking = None then (Sent 404 (Error ''Booking not found''), st)
                    else
                      (case update_rows (flt 1) (\<lambda>b. b_id b = bid) (patch_booking v)
                              (bookings st) of
                         (upd, bs) \<Rightarrow>
                           (case single upd of
                              Rejected \<Rightarrow> (Uncaught, st\<lparr>bookings := bs\<rparr>)
                            | Reply data updateError \<Rightarrow>
                                if updateError
                                then (Sent 500 (Error ''Failed to update booking''),
                                      st\<lparr>bookings := bs\<rparr>)
                                else (Sent 200 (BookingData data), st\<lparr>bookings := bs\<rparr>))))))"

section \<open>Rooms: \<^verbatim>\<open>api/rooms.js\<close>\<close>

text \<open>The row of \<^verbatim>\<open>insert([{ ...value, is_available: true }])\<close>.\<close>

definition new_room :: "converted \<Rightarrow> int \<Rightarrow> room" where
  "new_room v i =
     \<lparr>r_id = i,
      room_number = or_else (vstr v ''room_number'') [],
      room_type = or_else (vstr v ''room_type'') [],
      capacity = or_else (vint v ''capacity'') 0,
      price_per_night = or_else (vnum v ''price_per_night'') 0,
      is_available = True\<rparr>"

definition handleCreateRoom ::
  "joi \<Rightarrow> (nat \<Rightarrow> fault) \<Rightarrow> payload \<Rightarrow> store \<Rightarrow> response \<times> store" where
  "handleCreateRoom lib flt roomData st =
     (case validate lib roomSchema roomData of
        Inl details \<Rightarrow> (Sent 400 (ValidationFailed details), st)
      | Inr v \<Rightarrow>
          (case single (select (flt 0)
                  (filter (\<lambda>r. room_number r = or_else (vstr v ''room_number'') []) (rooms st))) of
             Rejected \<Rightarrow> (Uncaught, st)
           | Reply existingRoom duplicateError \<Rightarrow>
               if existingRoom \<noteq> None then (Sent 400 (Error ''Room number already exists''), st)
               else
                 (case insert_row (flt 1) (new_room v (fresh_id (map r_id (rooms st))))
                         (rooms st) of
                    (ins, rs) \<Rightarrow>
                      (case single ins of
                         Rejected \<Rightarrow> (Uncaught, st\<lparr>rooms := rs\<rparr>)
                       | Reply data createError \<Rightarrow>
                           if createError
                           then (Sent 500 (Error ''Failed to create room''), st\<lparr>rooms := rs\<rparr>)
                           else (Sent 201 (RoomData data), st\<lparr>rooms := rs\<rparr>)))))"

definition patch_room :: "converted \<Rightarrow> room \<Rightarrow> room" where
  "patch_room v r =
     r\<lparr>room_number := or_else (vstr v ''room_number'') (room_number r),
       room_type := or_else (vstr v ''room_type'') (room_type r),
       capacity := or_else (vint v ''capacity'') (capacity r),
       price_per_night := or_else (vnum v ''price_per_night'') (price_per_night r),
       is_available := or_else (vbool v ''is_available'') (is_available r)\<rparr>"

text \<open>
  The duplicate check of an update runs only \<^verbatim>\<open>if (value.key)\<close>: the key is there and
  its string is not empty. \<open>Reply None False\<close> stands for the check that was not made.
\<close>

definition handleUpdateRoom ::
  "joi \<Rightarrow> (nat \<Rightarrow> fault) \<Rightarrow> int option \<Rightarrow> payload \<Rightarrow> store \<Rightarrow> response \<times> store" where
  "handleUpdateRoom lib flt roomId roomData st =
     (case roomId of
        None \<Rightarrow> (Sent 400 (Error ''Room ID is required''), st)
      | Some rid \<Rightarrow>
          (case validate lib updateRoomSchema roomData of
             Inl details \<Rightarrow> (Sent 400 (ValidationFailed details), st)
           | Inr v \<Rightarrow>
               (case single (select (flt 0) (filter (\<lambda>r. r_id r = rid) (rooms st))) of
                  Rejected \<Rightarrow> (Uncaught, st)
                | Reply existingRoom fetchError \<Rightarrow>
                    if existingRoom = None then (Sent 404 (Error ''Room not found''), st)
                    else
                      (case (case vstr v ''room_number'' of
                               None \<Rightarrow> Reply None False
                             | Some n \<Rightarrow>
                                 if n = [] then Reply None False
                                 else single (select (flt 1)
                                        (filter (\<lambda>r. room_number r = n \<and> r_id r \<noteq> rid)
                                           (rooms st)))) of
                         Rejected \<Rightarrow> (Uncaught, st)
                       | Reply duplicateRoom duplicateCheckError \<Rightarrow>
                           if duplicateRoom \<noteq> None
                           then (Sent 400 (Error ''Room number already exists''), st)
                           else
                             (case update_rows (flt 2) (\<lambda>r. r_id r = rid) (patch_room v)
                                     (rooms st) of
                                (upd, rs) \<Rightarrow>
                                  (case single upd of
                                     Rejected \<Rightarrow> (Uncaught, st\<lparr>rooms := rs\<rparr>)
                                   | Reply data updateError \<Rightarrow>
                                       if updateError
                                       then (Sent 500 (Error ''Failed to update room''),
                                             st\<lparr>rooms := rs\<rparr>)
                                       else (Sent 200 (RoomData data), st\<lparr>rooms := rs\<rparr>)))))))"

text \<open>
  \<^verbatim>\<open>activeBookings && activeBookings.length > 0\<close>: the guard of the two delete handlers.
  The error of the guard query is bound (\<^verbatim>\<open>bookingError\<close>) and never read.
\<close>

fun has_rows :: "'a list option \<Rightarrow> bool" where
  "has_rows (Some (r # rs)) = True"
| "has_rows _ = False"

definition handleDeleteRoom ::
  "(nat \<Rightarrow> fault) \<Rightarrow> int option \<Rightarrow> store \<Rightarrow> response \<times> store" where
  "handleDeleteRoom flt roomId st =
     (case roomId of
        None \<Rightarrow> (Sent 400 (Error ''Room ID is required''), st)
      | Some rid \<Rightarrow>
          (case select (flt 0)
                  (filter (\<lambda>b. room_id b = rid \<and> status b \<in> set active_statuses)
                     (bookings st)) of
             Rejected \<Rightarrow> (Uncaught, st)
           | Reply activeBookings bookingError \<Rightarrow>
               if has_rows activeBookings
               then (Sent 400 (Error ''Cannot delete room with active bookings''), st)
               else
                 (case delete_rows (flt 1) (\<lambda>r. r_id r = rid) (rooms st) of
                    (Rejected, rs) \<Rightarrow> (Uncaught, st\<lparr>rooms := rs\<rparr>)
                  | (Reply _ deleteError, rs) \<Rightarrow>
                      if deleteError
                      then (Sent 500 (Error ''Failed to delete room''), st\<lparr>rooms := rs\<rparr>)
                      else (Sent 200 (Message ''Room deleted successfully''),
                            st\<lparr>rooms := rs\<rparr>))))"

section \<open>Guests: the guests handler (\<^verbatim>\<open>unnamed/part_000\<close>)\<close>

definition new_guest :: "converted \<Rightarrow> int \<Rightarrow> guest" where
  "new_guest v i =
     \<lparr>g_id = i,
      name = or_else (vstr v ''name'') [],
      email = or_else (vstr v ''email'') [],
      phone = or_else (vstr v ''phone'') [],
      address = vstr v ''address'',
      id_proof = vstr v ''id_proof''\<rparr>"

definition handleCreateGuest ::
  "joi \<Rightarrow> (nat \<Rightarrow> fault) \<Rightarrow> payload \<Rightarrow> store \<Rightarrow> response \<times> store" where
  "handleCreateGuest lib flt guestData st =
     (case validate lib guestSchema guestData of
        Inl details \<Rightarrow> (Sent 400 (ValidationFailed details), st)
      | Inr v \<Rightarrow>
          (case single (select (flt 0)
                  (filter (\<lambda>g. email g = or_else (vstr v ''email'') []) (guests st))) of
             Rejected \<Rightarrow> (Uncaught, st)
           | Reply existingGuest duplicateError \<Rightarrow>
               if existingGuest \<noteq> None then (Sent 400 (Error ''Email already registered''), st)
               else
                 (case insert_row (flt 1) (new_guest v (fresh_id (map g_id (guests st))))
                         (guests st) of
                    (ins, gs) \<Rightarrow>
                      (case single ins of
                         Rejected \<Rightarrow> (Uncaught, st\<lparr>guests := gs\<rparr>)
                       | Reply data createError \<Rightarrow>
                           if createError
                           then (Sent 500 (Error ''Failed to create guest''), st\<lparr>guests := gs\<rparr>)
                           else (Sent 201 (GuestData data), st\<lparr>guests := gs\<rparr>)))))"

definition patch_guest :: "converted \<Rightarrow> guest \<Rightarrow> guest" where
  "patch_guest v g =
     g\<lparr>name := or_else (vstr v ''name'') (name g),
       email := or_else (vstr v ''email'') (email g),
       phone := or_else (vstr v ''phone'') (phone g),
       address := (case vstr v ''address'' of Some a \<Rightarrow> Some a | None \<Rightarrow> address g),
       id_proof := (case vstr v ''id_proof'' of Some a \<Rightarrow> Some a | None \<Rightarrow> id_proof g)\<rparr>"

definition handleUpdateGuest ::
  "joi \<Rightarrow> (nat \<Rightarrow> fault) \<Rightarrow> int option \<Rightarrow> payload \<Rightarrow> store \<Rightarrow> response \<times> store" where
  "handleUpdateGuest lib flt guestId guestData st =
     (case guestId of
        None \<Rightarrow> (Sent 400 (Error ''Guest ID is required''), st)
      | Some gid \<Rightarrow>
          (case validate lib updateGuestSchema guestData of
             Inl details \<Rightarrow> (Sent 400 (ValidationFailed details), st)
           | Inr v \<Rightarrow>
               (case single (select (flt 0) (filter (\<lambda>g. g_id g = gid) (guests st))) of
                  Rejected \<Rightarrow> (Uncaught, st)
                | Reply existingGuest fetchError \<Rightarrow>
                    if existingGuest = None then (Sent 404 (Error ''Guest not found''), st)
                    else
                      (case (case vstr v ''email'' of
                               None \<Rightarrow> Reply None False
                             | Some e \<Rightarrow>
                                 if e = [] then Reply None False
                                 else single (select (flt 1)
                                        (filter (\<lambda>g. email g = e \<and> g_id g \<noteq> gid) (guests st)))) of
                         Rejected \<Rightarrow> (Uncaught, st)
                       | Reply duplicateGuest duplicateCheckError \<Rightarrow>
                           if duplicateGuest \<noteq> None
                           then (Sent 400 (Error ''Email already registered''), st)
                           else
                             (case update_rows (flt 2) (\<lambda>g. g_id g = gid) (patch_guest v)
                                     (guests st) of
                                (upd, gs) \<Rightarrow>
                                  (case single upd of
                                     Rejected \<Rightarrow> (Uncaught, st\<lparr>guests := gs\<rparr>)
                                   | Reply data updateError \<Rightarrow>
                                       if updateError
                                       then (Sent 500 (Error ''Failed to update guest''),
                                             st\<lparr>guests := gs\<rparr>)
                                       else (Sent 200 (GuestData data), st\<lparr>guests := gs\<rparr>)))))))"

definition handleDeleteGuest ::
  "(nat \<Rightarrow> fault) \<Rightarrow> int option \<Rightarrow> store \<Rightarrow> response \<times> store" where
  "handleDeleteGuest flt guestId st =
     (case guestId of
        None \<Rightarrow> (Sent 400 (Error ''Guest ID is required''), st)
      | Some gid \<Rightarrow>
          (case select (flt 0)
                  (filter (\<lambda>b. guest_id b = gid \<and> status b \<in> set active_statuses)
                     (bookings st)) of
             Rejected \<Rightarrow> (Uncaught, st)
           | Reply activeBookings bookingError \<Rightarrow>
               if has_rows activeBookings
               then (Sent 400 (Error ''Cannot delete guest with active bookings''), st)
               else
                 (case delete_rows (flt 1) (\<lambda>g. g_id g = gid) (guests st) of
                    (Rejected, gs) \<Rightarrow> (Uncaught, st\<lparr>guests := gs\<rparr>)
                  | (Reply _ deleteError, gs) \<Rightarrow>
                      if deleteError
                      then (Sent 500 (Error ''Failed to delete guest''), st\<lparr>guests := gs\<rparr>)
                      else (Sent 200 (Message ''Guest deleted successfully''),
                            st\<lparr>guests := gs\<rparr>))))"

section \<open>Example data\<close>

text \<open>
  One guest, two rooms and four bookings, one in each status. The theorems below are
  applied to this store to show that their hypotheses can be met.
\<close>

definition ada :: guest where
  "ada = \<lparr>g_id = 1, name = ''Ada Park'', email = ''ada@example.com'',
           phone = ''+1 555 010 0199'', address = None, id_proof = None\<rparr>"

definition room101 :: room where
  "room101 = \<lparr>r_id = 1, room_number = ''101'', room_type = ''single'', capacity = 1,
               price_per_night = 50, is_available = False\<rparr>"

definition room102 :: room where
  "room102 = \<lparr>r_id = 2, room_number = ''102'', room_type = ''double'', capacity = 2,
               price_per_night = 80, is_available = False\<rparr>"

definition booking1 :: booking where
  "booking1 = \<lparr>b_id = 1, guest_id = 1, room_id = 1, check_in_date = 15, check_out_date = 18,
                total_amount = 150, status = ''booked'',
                actual_check_in = None, actual_check_out = None\<rparr>"

definition booking2 :: booking where
  "booking2 = \<lparr>b_id = 2, guest_id = 1, room_id = 2, check_in_date = 20, check_out_date = 22,
                total_amount = 160, status = ''checked_in'',
                actual_check_in = Some 20, actual_check_out = None\<rparr>"

definition booking3 :: booking where
  "booking3 = \<lparr>b_id = 3, guest_id = 1, room_id = 2, check_in_date = 1, check_out_date = 3,
                total_amount = 160, status = ''checked_out'',
                actual_check_in = Some 1, actual_check_out = Some 3\<rparr>"

definition booking4 :: booking where
  "booking4 = \<lparr>b_id = 4, guest_id = 1, room_id = 2, check_in_date = 5, check_out_date = 6,
                total_amount = 80, status = ''cancelled'',
                actual_check_in = None, actual_check_out = None\<rparr>"

definition lifecycle_store :: store where
  "lifecycle_store =
     \<lparr>guests = [ada], rooms = [room101, room102],
      bookings = [booking1, booking2, booking3, booking4]\<rparr>"

lemmas example_rows =
  ada_def room101_def room102_def booking1_def booking2_def booking3_def booking4_def

text \<open>
  A stand-in for the validation library: an e-mail address has an \<open>@\<close>, a phone
  number is made of digits, ASCII white space and \<^verbatim>\<open>- + ( )\<close>, five strings are ISO
  dates (the time line counts days, today is day 0 and 2030-01-15 is day 15), no string
  is read as a number or a boolean, and rounding is exact, halves up.
\<close>

definition phone_chars :: "char list" where
  "phone_chars =
     ''0123456789'' @ [CHR '' '', CHR 0x09, CHR 0x0A, CHR 0x0B, CHR 0x0C, CHR 0x0D] @ ''-+()''"

definition round_to :: "nat \<Rightarrow> rat \<Rightarrow> rat" where
  "round_to n x = of_int \<lfloor>x * 10 ^ n + 1 / 2\<rfloor> / 10 ^ n"

definition lib0 :: joi where
  "lib0 =
     \<lparr>is_email = (\<lambda>s. CHR ''@'' \<in> set s),
      is_phone = (\<lambda>s. s \<noteq> [] \<and> list_all (\<lambda>c. c \<in> set phone_chars) s),
      iso_date = map_of
        [(JStr ''2029-12-25'', -6), (JStr ''2030-01-15'', 15), (JStr ''2030-01-18'', 18),
         (JStr ''2030-01-20'', 20), (JStr ''2030-01-25'', 25)],
      to_number = (\<lambda>s. None),
      to_boolean = (\<lambda>s. None),
      round_number = round_to,
      date_now = 0\<rparr>"

definition booking_request :: "int \<Rightarrow> int \<Rightarrow> string \<Rightarrow> string \<Rightarrow> payload" where
  "booking_request g r check_in check_out =
     [(''guest_id'', JNum (of_int g)), (''room_id'', JNum (of_int r)),
      (''check_in_date'', JStr check_in), (''check_out_date'', JStr check_out),
      (''total_amount'', JNum 250)]"

text \<open>
  A store in which room 101 is marked available although booking 1 (days 15 to 18,
  status \<open>booked\<close>) is on it: the state after the availability write of a create was
  lost, or after an update of the room set the flag.
\<close>

definition stale_store :: store where
  "stale_store =
     \<lparr>guests = [ada], rooms = [room101\<lparr>is_available := True\<rparr>, room102],
      bookings = [booking1]\<rparr>"

definition empty_hotel :: store where
  "empty_hotel =
     \<lparr>guests = [ada], rooms = [room101\<lparr>is_available := True\<rparr>, room102], bookings = []\<rparr>"

definition room_request :: payload where
  "room_request =
     [(''room_number'', JStr ''103''), (''room_type'', JStr ''suite''),
      (''capacity'', JNum 3), (''price_per_night'', JNum 120)]"

text \<open>A body for CreateRoom in which each of the four keys breaks a rule.\<close>

definition bad_room_request :: payload where
  "bad_room_request =
     [(''room_number'', JStr ''''), (''room_type'', JStr ''penthouse''),
      (''capacity'', JNum 0), (''price_per_night'', JNum (- 5))]"

section \<open>Validation: basic facts\<close>

lemma round_to_of_int: "round_to n (of_int k) = of_int k"
proof -
  have half: "\<lfloor>of_int m + (1 / 2 :: rat)\<rfloor> = m" for m
    by linarith
  have "(of_int k :: rat) * 10 ^ n + 1 / 2 = of_int (k * 10 ^ n) + 1 / 2"
    by simp
  then have "\<lfloor>(of_int k :: rat) * 10 ^ n + 1 / 2\<rfloor> = k * 10 ^ n"
    using half [of "k * 10 ^ n"] by presburger
  then show ?thesis
    by (simp add: round_to_def)
qed

lemma round_to_numeral: "round_to n (numeral k) = numeral k"
  using round_to_of_int [of n "numeral k"] by simp

lemma check_keys_Required:
  assumes "check_keys lib p ((k, sc, Required) # ks) acc = Inr v"
  obtains x c where "map_of p k = Some x" and "coerce lib sc x = Inr c"
    and "first_broken lib (map_of acc) (rules_of sc) c = None"
    and "check_keys lib p ks (acc @ [(k, c)]) = Inr v"
  using assms
  by (auto simp: check_key_def split: option.splits sum.splits)

lemma coerce_number:
  assumes "coerce lib (JoiNumber rs) x = Inr c"
  obtains r where "c = VNum r"
  using assms by (auto split: option.splits if_splits)


lemma validate_Inr:
  assumes "validate lib (JoiObject ks n) p = Inr v"
  shows "check_keys lib p ks [] = Inr v" and "unknown_keys ks p = []" and "n \<le> length p"
  using assms by (auto split: sum.splits list.splits if_splits)


lemma coerce_string:
  assumes "coerce lib (JoiString rs) x = Inr c"
  obtains s where "c = VStr s" and "s \<noteq> []"
  using assms by (auto split: jvalue.splits if_splits)

lemma coerce_valid:
  assumes "coerce lib (JoiStringValid vs) x = Inr c"
  obtains s where "c = VStr s" and "s \<in> set vs"
  using assms by (auto split: jvalue.splits if_splits)

lemma check_keys_extends:
  assumes "check_keys lib p ks acc = Inr v"
  shows "\<exists>rest. v = acc @ rest"
  using assms
proof (induction ks arbitrary: acc)
  case Nil
  then show ?case by simp
next
  case (Cons a ks)
  obtain k sc pr where a: "a = (k, sc, pr)"
    by (cases a)
  show ?case
  proof (cases "check_key lib (map_of acc) sc pr (map_of p k)")
    case (Inl e)
    with Cons.prems show ?thesis by (simp add: a)
  next
    case (Inr c)
    show ?thesis
    proof (cases c)
      case None
      with Inr Cons.prems have "check_keys lib p ks acc = Inr v"
        by (simp add: a)
      then show ?thesis by (rule Cons.IH)
    next
      case (Some y)
      with Inr Cons.prems have "check_keys lib p ks (acc @ [(k, y)]) = Inr v"
        by (simp add: a)
      then obtain rest where "v = (acc @ [(k, y)]) @ rest"
        using Cons.IH by blast
      then show ?thesis by simp
    qed
  qed
qed

text \<open>What \<open>roomSchema\<close> lets through: the four keys, each at its type.\<close>

lemma roomSchema_value:
  assumes "validate lib roomSchema p = Inr v"
  obtains n t c a where
    "v = [(''room_number'', VStr n), (''room_type'', VStr t), (''capacity'', VNum c),
          (''price_per_night'', VNum a)]"
    and "n \<noteq> []" and "t \<in> set room_types"
proof -
  note ck = validate_Inr(1) [OF assms [unfolded roomSchema_def]]
  from ck obtain x1 c1 where
    1: "coerce lib (JoiString [StringMin 1, StringMax 20]) x1 = Inr c1"
    and ck1: "check_keys lib p
      [(''room_type'', JoiStringValid room_types, Required),
       (''capacity'', JoiNumber [NumberInteger, NumberMin 1, NumberMax 20], Required),
       (''price_per_night'', JoiNumber [NumberPositive, NumberPrecision 2], Required)]
      ([] @ [(''room_number'', c1)]) = Inr v"
    by (rule check_keys_Required)
  from 1 obtain n where n: "c1 = VStr n" "n \<noteq> []"
    by (rule coerce_string)
  from ck1 obtain x2 c2 where
    2: "coerce lib (JoiStringValid room_types) x2 = Inr c2"
    and ck2: "check_keys lib p
      [(''capacity'', JoiNumber [NumberInteger, NumberMin 1, NumberMax 20], Required),
       (''price_per_night'', JoiNumber [NumberPositive, NumberPrecision 2], Required)]
      (([] @ [(''room_number'', c1)]) @ [(''room_type'', c2)]) = Inr v"
    by (rule check_keys_Required)
  from 2 obtain t where t: "c2 = VStr t" "t \<in> set room_types"
    by (rule coerce_valid)
  from ck2 obtain x3 c3 where
    3: "coerce lib (JoiNumber [NumberInteger, NumberMin 1, NumberMax 20]) x3 = Inr c3"
    and ck3: "check_keys lib p
      [(''price_per_night'', JoiNumber [NumberPositive, NumberPrecision 2], Required)]
      ((([] @ [(''room_number'', c1)]) @ [(''room_type'', c2)]) @ [(''capacity'', c3)]) = Inr v"
    by (rule check_keys_Required)
  from 3 obtain c where c: "c3 = VNum c"
    by (rule coerce_number)
  from ck3 obtain x4 c4 where
    4: "coerce lib (JoiNumber [NumberPositive, NumberPrecision 2]) x4 = Inr c4"
    and ck4: "check_keys lib p []
      (((([] @ [(''room_number'', c1)]) @ [(''room_type'', c2)]) @ [(''capacity'', c3)]) @
       [(''price_per_night'', c4)]) = Inr v"
    by (rule check_keys_Required)
  from 4 obtain a where a: "c4 = VNum a"
    by (rule coerce_number)
  have "v = [(''room_number'', VStr n), (''room_type'', VStr t), (''capacity'', VNum c),
          (''price_per_night'', VNum a)]"
    using ck4 n t c a by simp
  then show thesis
    using that n(2) t(2) by blast
qed

text \<open>
  What \<open>guestSchema\<close> lets through: the three required keys first, each a string that
  is not empty; the optional keys, when given, after them.
\<close>

lemma guestSchema_value:
  assumes "validate lib guestSchema p = Inr v"
  obtains n e ph rest where
    "v = [(''name'', VStr n), (''email'', VStr e), (''phone'', VStr ph)] @ rest"
    and "n \<noteq> []" and "e \<noteq> []" and "ph \<noteq> []"
proof -
  note ck = validate_Inr(1) [OF assms [unfolded guestSchema_def]]
  from ck obtain x1 c1 where
    1: "coerce lib (JoiString [StringMin 2, StringMax 100]) x1 = Inr c1"
    and ck1: "check_keys lib p
      [(''email'', JoiString [StringEmail], Required),
       (''phone'', JoiString [StringPattern, StringMin 10], Required),
       (''address'', JoiString [StringMax 500], Optional),
       (''id_proof'', JoiString [StringMax 100], Optional)]
      ([] @ [(''name'', c1)]) = Inr v"
    by (rule check_keys_Required)
  from 1 obtain n where n: "c1 = VStr n" "n \<noteq> []"
    by (rule coerce_string)
  from ck1 obtain x2 c2 where
    2: "coerce lib (JoiString [StringEmail]) x2 = Inr c2"
    and ck2: "check_keys lib p
      [(''phone'', JoiString [StringPattern, StringMin 10], Required),
       (''address'', JoiString [StringMax 500], Optional),
       (''id_proof'', JoiString [StringMax 100], Optional)]
      (([] @ [(''name'', c1)]) @ [(''email'', c2)]) = Inr v"
    by (rule check_keys_Required)
  from 2 obtain e where e: "c2 = VStr e" "e \<noteq> []"
    by (rule coerce_string)
  from ck2 obtain x3 c3 where
    3: "coerce lib (JoiString [StringPattern, StringMin 10]) x3 = Inr c3"
    and ck3: "check_keys lib p
      [(''address'', JoiString [StringMax 500], Optional),
       (''id_proof'', JoiString [StringMax 100], Optional)]
      ((([] @ [(''name'', c1)]) @ [(''email'', c2)]) @ [(''phone'', c3)]) = Inr v"
    by (rule check_keys_Required)
  from 3 obtain ph where ph: "c3 = VStr ph" "ph \<noteq> []"
    by (rule coerce_string)
  from check_keys_extends [OF ck3] obtain rest where
    "v = ((([] @ [(''name'', c1)]) @ [(''email'', c2)]) @ [(''phone'', c3)]) @ rest"
    by blast
  then have "v = [(''name'', VStr n), (''email'', VStr e), (''phone'', VStr ph)] @ rest"
    using n e ph by simp
  then show thesis
    using that n(2) e(2) ph(2) by blast
qed

lemma room_request_valid:
  "validate lib0 roomSchema room_request =
     Inr [(''room_number'', VStr ''103''), (''room_type'', VStr ''suite''),
          (''capacity'', VNum 3), (''price_per_night'', VNum 120)]"
  by (simp add: roomSchema_def room_request_def room_types_def check_key_def unknown_keys_def
      max_safe_def round_to_numeral lib0_def)

section \<open>Store calls: basic facts\<close>

lemma single_rows:
  "single (Reply (Some rows) False) =
     (case rows of [r] \<Rightarrow> Reply (Some r) False | _ \<Rightarrow> Reply None True)"
proof (cases rows)
  case Nil
  then show ?thesis by simp
next
  case (Cons r rs)
  then show ?thesis by (cases rs) simp_all
qed

lemma single_select:
  "single (select f rows) =
     (case f of
        Healthy \<Rightarrow> (case rows of [r] \<Rightarrow> Reply (Some r) False | _ \<Rightarrow> Reply None True)
      | Failing \<Rightarrow> Reply None True
      | Throwing \<Rightarrow> Rejected)"
  by (cases f) (simp_all add: select_def single_rows)

lemma filter_patched:
  assumes "\<And>x. P (f x) = P x"
  shows "filter P (map (\<lambda>x. if P x then f x else x) xs) = map f (filter P xs)"
  using assms by (induction xs) auto

lemma filter_unpatched:
  assumes "\<And>x. P (f x) = P x"
  shows "filter (\<lambda>x. \<not> P x) (map (\<lambda>x. if P x then f x else x) xs) = filter (\<lambda>x. \<not> P x) xs"
  using assms by (induction xs) auto

section \<open>CheckIn\<close>

lemma handleCheckIn_success_needs_booked:
  assumes "succeeded (fst (handleCheckIn flt now bookingId st))"
  shows "flt 0 = Healthy \<and> flt 1 = Healthy \<and>
         (\<exists>i c. bookingId = Some i \<and> filter (\<lambda>x. b_id x = i) (bookings st) = [c] \<and>
                status c = ''booked'')"
proof (cases bookingId)
  case None
  with assms show ?thesis
    by (simp add: handleCheckIn_def)
next
  case (Some i)
  show ?thesis
  proof (cases "flt 0")
    case Healthy
    show ?thesis
    proof (cases "filter (\<lambda>x. b_id x = i) (bookings st)")
      case Nil
      with assms Some Healthy show ?thesis
        by (simp add: handleCheckIn_def single_select)
    next
      case (Cons c cs)
      show ?thesis
      proof (cases cs)
        case Nil
        with Cons have rows: "filter (\<lambda>x. b_id x = i) (bookings st) = [c]"
          by simp
        show ?thesis
        proof (cases "status c = ''booked''")
          case True
          with assms Some Healthy rows show ?thesis
            by (cases "flt 1"; cases "flt 2")
               (simp_all add: handleCheckIn_def single_select single_rows update_rows_def)
        next
          case False
          with assms Some Healthy rows show ?thesis
            by (auto simp: handleCheckIn_def single_select)
        qed
      next
        case (Cons d ds)
        with assms Some Healthy \<open>filter (\<lambda>x. b_id x = i) (bookings st) = c # cs\<close>
        show ?thesis
          by (simp add: handleCheckIn_def single_select)
      qed
    qed
  next
    case Failing
    with assms Some show ?thesis
      by (simp add: handleCheckIn_def single_select)
  next
    case Throwing
    with assms Some show ?thesis
      by (simp add: handleCheckIn_def single_select)
  qed
qed

lemma handleCheckIn_run:
  assumes "flt 0 = Healthy \<and> flt 1 = Healthy \<and>
       filter (\<lambda>x. b_id x = bid) (bookings st) = [b] \<and> status b = ''booked''"
  shows "\<exists>st'. handleCheckIn flt now (Some bid) st =
          (Sent 200 (MessageBooking ''Guest checked in successfully''
             (Some (b\<lparr>status := ''checked_in'', actual_check_in := Some now\<rparr>))), st')
        \<and> filter (\<lambda>x. b_id x = bid) (bookings st') =
            [b\<lparr>status := ''checked_in'', actual_check_in := Some now\<rparr>]
        \<and> filter (\<lambda>x. b_id x \<noteq> bid) (bookings st') =
            filter (\<lambda>x. b_id x \<noteq> bid) (bookings st)
        \<and> rooms st' = rooms st
        \<and> guests st' = guests st"
proof -
  let ?f = "\<lambda>x. x\<lparr>status := ''checked_in'', actual_check_in := Some now\<rparr>"
  let ?bs = "map (\<lambda>x. if b_id x = bid then ?f x else x) (bookings st)"

  note a = assms
  have run: "handleCheckIn flt now (Some bid) st =
      (Sent 200 (MessageBooking ''Guest checked in successfully'' (Some (?f b))),
       st\<lparr>bookings := ?bs\<rparr>)"
    using a by (simp add: handleCheckIn_def single_select update_rows_def)
  have own: "filter (\<lambda>x. b_id x = bid) ?bs = [?f b]"
    using a filter_patched [of "\<lambda>x. b_id x = bid" ?f "bookings st"] by simp
  have others: "filter (\<lambda>x. b_id x \<noteq> bid) ?bs = filter (\<lambda>x. b_id x \<noteq> bid) (bookings st)"
    using filter_unpatched [of "\<lambda>x. b_id x = bid" ?f "bookings st"] by simp
  show ?thesis
    using run own others by simp
qed

text \<open>
  C2. For a booking id that resolves to one stored booking \<open>b\<close>, CheckIn succeeds if and
  only if the status of \<open>b\<close> is exactly \<open>booked\<close>: an unknown id is answered 404
  (NotFound); any other status is answered 400 (InvalidTransition) and nothing is written;
  with status \<open>booked\<close> (and the update accepted by the store) the answer is 200 with the
  updated booking, whose status is \<open>checked_in\<close> and whose \<open>actual_check_in\<close> is the
  current time, and only that booking changes. Conversely, whatever the store does, a
  successful answer means that the id resolved to a booking with status \<open>booked\<close>, that
  the answer carries that booking with status \<open>checked_in\<close> and \<open>actual_check_in\<close> the
  current time, and that the store holds it so, with nothing else changed.
\<close>

theorem handleCheckIn_iff_booked:
  "(flt 0 = Healthy \<and> filter (\<lambda>x. b_id x = bid) (bookings st) = [] \<longrightarrow>
      handleCheckIn flt now (Some bid) st = (Sent 404 (Error ''Booking not found''), st))
   \<and> (flt 0 = Healthy \<and> filter (\<lambda>x. b_id x = bid) (bookings st) = [b] \<and>
       status b \<noteq> ''booked'' \<longrightarrow>
      handleCheckIn flt now (Some bid) st =
        (Sent 400 (Error ''Only booked reservations can be checked in''), st))
   \<and> (flt 0 = Healthy \<and> flt 1 = Healthy \<and>
       filter (\<lambda>x. b_id x = bid) (bookings st) = [b] \<and> status b = ''booked'' \<longrightarrow>
      (\<exists>st'. handleCheckIn flt now (Some bid) st =
          (Sent 200 (MessageBooking ''Guest checked in successfully''
             (Some (b\<lparr>status := ''checked_in'', actual_check_in := Some now\<rparr>))), st')
        \<and> filter (\<lambda>x. b_id x = bid) (bookings st') =
            [b\<lparr>status := ''checked_in'', actual_check_in := Some now\<rparr>]
        \<and> filter (\<lambda>x. b_id x \<noteq> bid) (bookings st') =
            filter (\<lambda>x. b_id x \<noteq> bid) (bookings st)
        \<and> rooms st' = rooms st
        \<and> guests st' = guests st))
   \<and> (succeeded (fst (handleCheckIn flt now bookingId st)) \<longrightarrow>
      (\<exists>i c. bookingId = Some i \<and> filter (\<lambda>x. b_id x = i) (bookings st) = [c] \<and>
             status c = ''booked'' \<and>
             fst (handleCheckIn flt now bookingId st) =
               Sent 200 (MessageBooking ''Guest checked in successfully''
                 (Some (c\<lparr>status := ''checked_in'', actual_check_in := Some now\<rparr>))) \<and>
             filter (\<lambda>x. b_id x = i) (bookings (snd (handleCheckIn flt now bookingId st))) =
               [c\<lparr>status := ''checked_in'', actual_check_in := Some now\<rparr>] \<and>
             filter (\<lambda>x. b_id x \<noteq> i) (bookings (snd (handleCheckIn flt now bookingId st))) =
               filter (\<lambda>x. b_id x \<noteq> i) (bookings st) \<and>
             rooms (snd (handleCheckIn flt now bookingId st)) = rooms st \<and>
             guests (snd (handleCheckIn flt now bookingId st)) = guests st))"
proof (intro conjI impI)
  assume "flt 0 = Healthy \<and> filter (\<lambda>x. b_id x = bid) (bookings st) = []"
  then show "handleCheckIn flt now (Some bid) st = (Sent 404 (Error ''Booking not found''), st)"
    by (simp add: handleCheckIn_def single_select)
next
  assume "flt 0 = Healthy \<and> filter (\<lambda>x. b_id x = bid) (bookings st) = [b] \<and>
     status b \<noteq> ''booked''"
  then show "handleCheckIn flt now (Some bid) st =
        (Sent 400 (Error ''Only booked reservations can be checked in''), st)"
    by (simp add: handleCheckIn_def single_select)
next
  assume "flt 0 = Healthy \<and> flt 1 = Healthy \<and>
       filter (\<lambda>x. b_id x = bid) (bookings st) = [b] \<and> status b = ''booked''"
  then show "\<exists>st'. handleCheckIn flt now (Some bid) st =
          (Sent 200 (MessageBooking ''Guest checked in successfully''
             (Some (b\<lparr>status := ''checked_in'', actual_check_in := Some now\<rparr>))), st')
        \<and> filter (\<lambda>x. b_id x = bid) (bookings st') =
            [b\<lparr>status := ''checked_in'', actual_check_in := Some now\<rparr>]
        \<and> filter (\<lambda>x. b_id x \<noteq> bid) (bookings st') =
            filter (\<lambda>x. b_id x \<noteq> bid) (bookings st)
        \<and> rooms st' = rooms st
        \<and> guests st' = guests st"
    by (rule handleCheckIn_run)
next
  assume ok: "succeeded (fst (handleCheckIn flt now bookingId st))"
  from handleCheckIn_success_needs_booked [OF ok] obtain i c where
    flt: "flt 0 = Healthy \<and> flt 1 = Healthy \<and> True"
    and ic: "bookingId = Some i" "filter (\<lambda>x. b_id x = i) (bookings st) = [c]"
      "status c = ''booked''"
    by auto
  from flt ic have "flt 0 = Healthy \<and> flt 1 = Healthy \<and>
       filter (\<lambda>x. b_id x = i) (bookings st) = [c] \<and> status c = ''booked''"
    by simp
  from handleCheckIn_run [OF this] ic(1)
  obtain st' where
    "handleCheckIn flt now bookingId st =
       (Sent 200 (MessageBooking ''Guest checked in successfully'' (Some (c\<lparr>status := ''checked_in'', actual_check_in := Some now\<rparr>))), st')"
    and "filter (\<lambda>x. b_id x = i) (bookings st') = [c\<lparr>status := ''checked_in'', actual_check_in := Some now\<rparr>]"
    and "filter (\<lambda>x. b_id x \<noteq> i) (bookings st') = filter (\<lambda>x. b_id x \<noteq> i) (bookings st)"
    and "rooms st' = rooms st"
    and "guests st' = guests st"
    by auto
  with ic show "\<exists>i c. bookingId = Some i \<and> filter (\<lambda>x. b_id x = i) (bookings st) = [c] \<and>
             status c = ''booked'' \<and>
             fst (handleCheckIn flt now bookingId st) =
               Sent 200 (MessageBooking ''Guest checked in successfully''
                 (Some (c\<lparr>status := ''checked_in'', actual_check_in := Some now\<rparr>))) \<and>
             filter (\<lambda>x. b_id x = i) (bookings (snd (handleCheckIn flt now bookingId st))) =
               [c\<lparr>status := ''checked_in'', actual_check_in := Some now\<rparr>] \<and>
             filter (\<lambda>x. b_id x \<noteq> i) (bookings (snd (handleCheckIn flt now bookingId st))) =
               filter (\<lambda>x. b_id x \<noteq> i) (bookings st) \<and>
             rooms (snd (handleCheckIn flt now bookingId st)) = rooms st \<and>
             guests (snd (handleCheckIn flt now bookingId st)) = guests st"
    by simp
qed

theorem handleCheckIn_iff_booked_witness:
  "handleCheckIn (\<lambda>_. Healthy) 1000 (Some 9) lifecycle_store =
     (Sent 404 (Error ''Booking not found''), lifecycle_store)
   \<and> handleCheckIn (\<lambda>_. Healthy) 1000 (Some 2) lifecycle_store =
     (Sent 400 (Error ''Only booked reservations can be checked in''), lifecycle_store)
   \<and> (\<exists>st'. handleCheckIn (\<lambda>_. Healthy) 1000 (Some 1) lifecycle_store =
          (Sent 200 (MessageBooking ''Guest checked in successfully''
             (Some (booking1\<lparr>status := ''checked_in'', actual_check_in := Some 1000\<rparr>))), st')
        \<and> filter (\<lambda>x. b_id x = 1) (bookings st') =
            [booking1\<lparr>status := ''checked_in'', actual_check_in := Some 1000\<rparr>])
   \<and> succeeded (fst (handleCheckIn (\<lambda>_. Healthy) 1000 (Some 1) lifecycle_store))
   \<and> status booking1 = ''booked''
   \<and> filter (\<lambda>x. b_id x = 1)
       (bookings (snd (handleCheckIn (\<lambda>_. Healthy) 1000 (Some 1) lifecycle_store))) =
       [booking1\<lparr>status := ''checked_in'', actual_check_in := Some 1000\<rparr>]
   \<and> filter (\<lambda>x. b_id x \<noteq> 1)
       (bookings (snd (handleCheckIn (\<lambda>_. Healthy) 1000 (Some 1) lifecycle_store))) =
       [booking2, booking3, booking4]"
proof -
  note inst = handleCheckIn_iff_booked [where flt = "\<lambda>_. Healthy" and st = lifecycle_store
      and now = 1000 and bookingId = "Some 1"]
  have unknown: "filter (\<lambda>x. b_id x = 9) (bookings lifecycle_store) = []"
    by (simp add: lifecycle_store_def example_rows)
  have second: "filter (\<lambda>x. b_id x = 2) (bookings lifecycle_store) = [booking2]"
    by (simp add: lifecycle_store_def example_rows)
  have first: "filter (\<lambda>x. b_id x = 1) (bookings lifecycle_store) = [booking1]"
    by (simp add: lifecycle_store_def example_rows)
  have rest: "filter (\<lambda>x. b_id x \<noteq> 1) (bookings lifecycle_store) = [booking2, booking3, booking4]"
    by (simp add: lifecycle_store_def example_rows)
  have st2: "status booking2 \<noteq> ''booked''" and st1: "status booking1 = ''booked''"
    by (simp_all add: example_rows)
  have a: "handleCheckIn (\<lambda>_. Healthy) 1000 (Some 9) lifecycle_store =
     (Sent 404 (Error ''Booking not found''), lifecycle_store)"
    using inst [where bid = 9, THEN conjunct1] unknown by simp
  have b: "handleCheckIn (\<lambda>_. Healthy) 1000 (Some 2) lifecycle_store =
     (Sent 400 (Error ''Only booked reservations can be checked in''), lifecycle_store)"
    using inst [where bid = 2 and b = booking2, THEN conjunct2, THEN conjunct1] second st2 by simp
  have c: "\<exists>st'. handleCheckIn (\<lambda>_. Healthy) 1000 (Some 1) lifecycle_store =
          (Sent 200 (MessageBooking ''Guest checked in successfully''
             (Some (booking1\<lparr>status := ''checked_in'', actual_check_in := Some 1000\<rparr>))), st')
        \<and> filter (\<lambda>x. b_id x = 1) (bookings st') =
            [booking1\<lparr>status := ''checked_in'', actual_check_in := Some 1000\<rparr>]"
    using inst [where bid = 1 and b = booking1, THEN conjunct2, THEN conjunct2, THEN conjunct1] first st1 by blast
  then have ok: "succeeded (fst (handleCheckIn (\<lambda>_. Healthy) 1000 (Some 1) lifecycle_store))"
    by auto
  from inst [where bid = 1, THEN conjunct2, THEN conjunct2, THEN conjunct2] ok obtain i c where
    ic: "Some (1::int) = Some i" "filter (\<lambda>x. b_id x = i) (bookings lifecycle_store) = [c]"
    and post: "filter (\<lambda>x. b_id x = i)
       (bookings (snd (handleCheckIn (\<lambda>_. Healthy) 1000 (Some 1) lifecycle_store))) =
       [c\<lparr>status := ''checked_in'', actual_check_in := Some 1000\<rparr>]"
      "filter (\<lambda>x. b_id x \<noteq> i)
       (bookings (snd (handleCheckIn (\<lambda>_. Healthy) 1000 (Some 1) lifecycle_store))) =
       filter (\<lambda>x. b_id x \<noteq> i) (bookings lifecycle_store)"
    by blast
  from ic first have "i = 1" "c = booking1"
    by simp_all
  with post rest have d: "filter (\<lambda>x. b_id x = 1)
       (bookings (snd (handleCheckIn (\<lambda>_. Healthy) 1000 (Some 1) lifecycle_store))) =
       [booking1\<lparr>status := ''checked_in'', actual_check_in := Some 1000\<rparr>]"
    "filter (\<lambda>x. b_id x \<noteq> 1)
       (bookings (snd (handleCheckIn (\<lambda>_. Healthy) 1000 (Some 1) lifecycle_store))) =
       [booking2, booking3, booking4]"
    by simp_all
  show ?thesis
    using a b c ok st1 d by blast
qed

section \<open>CheckOut\<close>

lemma handleCheckOut_success_needs_checked_in:
  assumes "succeeded (fst (handleCheckOut flt now bookingId st))"
  shows "flt 0 = Healthy \<and> flt 1 = Healthy \<and> flt 2 \<noteq> Throwing \<and>
         (\<exists>i c. bookingId = Some i \<and> filter (\<lambda>x. b_id x = i) (bookings st) = [c] \<and>
                status c = ''checked_in'')"
proof (cases bookingId)
  case None
  with assms show ?thesis
    by (simp add: handleCheckOut_def)
next
  case (Some i)
  show ?thesis
  proof (cases "flt 0")
    case Healthy
    show ?thesis
    proof (cases "filter (\<lambda>x. b_id x = i) (bookings st)")
      case Nil
      with assms Some Healthy show ?thesis
        by (simp add: handleCheckOut_def single_select)
    next
      case (Cons c cs)
      show ?thesis
      proof (cases cs)
        case Nil
        with Cons have rows: "filter (\<lambda>x. b_id x = i) (bookings st) = [c]"
          by simp
        show ?thesis
        proof (cases "status c = ''checked_in''")
          case True
          with assms Some Healthy rows show ?thesis
            by (cases "flt 1"; cases "flt 2")
               (simp_all add: handleCheckOut_def single_select single_rows update_rows_def)
        next
          case False
          with assms Some Healthy rows show ?thesis
            by (auto simp: handleCheckOut_def single_select)
        qed
      next
        case (Cons d ds)
        with assms Some Healthy \<open>filter (\<lambda>x. b_id x = i) (bookings st) = c # cs\<close>
        show ?thesis
          by (simp add: handleCheckOut_def single_select)
      qed
    qed
  next
    case Failing
    with assms Some show ?thesis
      by (simp add: handleCheckOut_def single_select)
  next
    case Throwing
    with assms Some show ?thesis
      by (simp add: handleCheckOut_def single_select)
  qed
qed

lemma handleCheckOut_run:
  assumes "flt 0 = Healthy \<and> flt 1 = Healthy \<and> flt 2 \<noteq> Throwing \<and>
       filter (\<lambda>x. b_id x = bid) (bookings st) = [b] \<and> status b = ''checked_in''"
  shows "\<exists>st'. handleCheckOut flt now (Some bid) st =
          (Sent 200 (MessageBooking ''Guest checked out successfully''
             (Some (b\<lparr>status := ''checked_out'', actual_check_out := Some now\<rparr>))), st')
        \<and> filter (\<lambda>x. b_id x = bid) (bookings st') =
            [b\<lparr>status := ''checked_out'', actual_check_out := Some now\<rparr>]
        \<and> filter (\<lambda>x. b_id x \<noteq> bid) (bookings st') =
            filter (\<lambda>x. b_id x \<noteq> bid) (bookings st)
        \<and> rooms st' =
            (if flt 2 = Healthy
             then map (\<lambda>r. if r_id r = room_id b then r\<lparr>is_available := True\<rparr> else r) (rooms st)
             else rooms st)
        \<and> guests st' = guests st"
proof -
  let ?f = "\<lambda>x. x\<lparr>status := ''checked_out'', actual_check_out := Some now\<rparr>"
  let ?bs = "map (\<lambda>x. if b_id x = bid then ?f x else x) (bookings st)"
  let ?rs = "if flt 2 = Healthy
             then map (\<lambda>r. if r_id r = room_id b then r\<lparr>is_available := True\<rparr> else r) (rooms st)
             else rooms st"
  note a = assms
  have run: "handleCheckOut flt now (Some bid) st =
      (Sent 200 (MessageBooking ''Guest checked out successfully'' (Some (?f b))),
       st\<lparr>bookings := ?bs, rooms := ?rs\<rparr>)"
    using a by (cases "flt 2") (simp_all add: handleCheckOut_def single_select update_rows_def)
  have own: "filter (\<lambda>x. b_id x = bid) ?bs = [?f b]"
    using a filter_patched [of "\<lambda>x. b_id x = bid" ?f "bookings st"] by simp
  have others: "filter (\<lambda>x. b_id x \<noteq> bid) ?bs = filter (\<lambda>x. b_id x \<noteq> bid) (bookings st)"
    using filter_unpatched [of "\<lambda>x. b_id x = bid" ?f "bookings st"] by simp
  show ?thesis
    using run own others by simp
qed

text \<open>
  C3. For a booking id that resolves to one stored booking \<open>b\<close>, CheckOut succeeds if
  and only if the status of \<open>b\<close> is exactly \<open>checked_in\<close>: an unknown id is answered
  404, any other status 400 with nothing written. With status \<open>checked_in\<close> (and the
  update accepted by the store) the answer is 200 with the updated booking, whose status
  is \<open>checked_out\<close> and whose \<open>actual_check_out\<close> is the current time; the room of the
  booking is then set available, and an error of that second write changes nothing in
  the answer (best effort). Conversely, whatever the store does, a successful answer
  means that the id resolved to a booking with status \<open>checked_in\<close>, that the answer
  carries that booking with status \<open>checked_out\<close> and \<open>actual_check_out\<close> the current
  time, that the store holds it so, and that the room of the booking was set available
  unless the second write returned an error.
\<close>

theorem handleCheckOut_iff_checked_in:
  "(flt 0 = Healthy \<and> filter (\<lambda>x. b_id x = bid) (bookings st) = [] \<longrightarrow>
      handleCheckOut flt now (Some bid) st = (Sent 404 (Error ''Booking not found''), st))
   \<and> (flt 0 = Healthy \<and> filter (\<lambda>x. b_id x = bid) (bookings st) = [b] \<and>
       status b \<noteq> ''checked_in'' \<longrightarrow>
      handleCheckOut flt now (Some bid) st =
        (Sent 400 (Error ''Only checked-in guests can be checked out''), st))
   \<and> (flt 0 = Healthy \<and> flt 1 = Healthy \<and> flt 2 \<noteq> Throwing \<and>
       filter (\<lambda>x. b_id x = bid) (bookings st) = [b] \<and> status b = ''checked_in'' \<longrightarrow>
      (\<exists>st'. handleCheckOut flt now (Some bid) st =
          (Sent 200 (MessageBooking ''Guest checked out successfully''
             (Some (b\<lparr>status := ''checked_out'', actual_check_out := Some now\<rparr>))), st')
        \<and> filter (\<lambda>x. b_id x = bid) (bookings st') =
            [b\<lparr>status := ''checked_out'', actual_check_out := Some now\<rparr>]
        \<and> filter (\<lambda>x. b_id x \<noteq> bid) (bookings st') =
            filter (\<lambda>x. b_id x \<noteq> bid) (bookings st)
        \<and> rooms st' =
            (if flt 2 = Healthy
             then map (\<lambda>r. if r_id r = room_id b then r\<lparr>is_available := True\<rparr> else r) (rooms st)
             else rooms st)
        \<and> guests st' = guests st))
   \<and> (succeeded (fst (handleCheckOut flt now bookingId st)) \<longrightarrow>
      (\<exists>i c. bookingId = Some i \<and> filter (\<lambda>x. b_id x = i) (bookings st) = [c] \<and>
             status c = ''checked_in'' \<and>
             fst (handleCheckOut flt now bookingId st) =
               Sent 200 (MessageBooking ''Guest checked out successfully''
                 (Some (c\<lparr>status := ''checked_out'', actual_check_out := Some now\<rparr>))) \<and>
             filter (\<lambda>x. b_id x = i) (bookings (snd (handleCheckOut flt now bookingId st))) =
               [c\<lparr>status := ''checked_out'', actual_check_out := Some now\<rparr>] \<and>
             filter (\<lambda>x. b_id x \<noteq> i) (bookings (snd (handleCheckOut flt now bookingId st))) =
               filter (\<lambda>x. b_id x \<noteq> i) (bookings st) \<and>
             rooms (snd (handleCheckOut flt now bookingId st)) =
            (if flt 2 = Healthy
             then map (\<lambda>r. if r_id r = room_id c then r\<lparr>is_available := True\<rparr> else r) (rooms st)
             else rooms st) \<and>
             guests (snd (handleCheckOut flt now bookingId st)) = guests st))"
proof (intro conjI impI)
  assume "flt 0 = Healthy \<and> filter (\<lambda>x. b_id x = bid) (bookings st) = []"
  then show "handleCheckOut flt now (Some bid) st = (Sent 404 (Error ''Booking not found''), st)"
    by (simp add: handleCheckOut_def single_select)
next
  assume "flt 0 = Healthy \<and> filter (\<lambda>x. b_id x = bid) (bookings st) = [b] \<and>
     status b \<noteq> ''checked_in''"
  then show "handleCheckOut flt now (Some bid) st =
        (Sent 400 (Error ''Only checked-in guests can be checked out''), st)"
    by (simp add: handleCheckOut_def single_select)
next
  assume "flt 0 = Healthy \<and> flt 1 = Healthy \<and> flt 2 \<noteq> Throwing \<and>
       filter (\<lambda>x. b_id x = bid) (bookings st) = [b] \<and> status b = ''checked_in''"
  then show "\<exists>st'. handleCheckOut flt now (Some bid) st =
          (Sent 200 (MessageBooking ''Guest checked out successfully''
             (Some (b\<lparr>status := ''checked_out'', actual_check_out := Some now\<rparr>))), st')
        \<and> filter (\<lambda>x. b_id x = bid) (bookings st') =
            [b\<lparr>status := ''checked_out'', actual_check_out := Some now\<rparr>]
        \<and> filter (\<lambda>x. b_id x \<noteq> bid) (bookings st') =
            filter (\<lambda>x. b_id x \<noteq> bid) (bookings st)
        \<and> rooms st' =
            (if flt 2 = Healthy
             then map (\<lambda>r. if r_id r = room_id b then r\<lparr>is_available := True\<rparr> else r) (rooms st)
             else rooms st)
        \<and> guests st' = guests st"
    by (rule handleCheckOut_run)
next
  assume ok: "succeeded (fst (handleCheckOut flt now bookingId st))"
  from handleCheckOut_success_needs_checked_in [OF ok] obtain i c where
    flt: "flt 0 = Healthy \<and> flt 1 = Healthy \<and> flt 2 \<noteq> Throwing \<and> True"
    and ic: "bookingId = Some i" "filter (\<lambda>x. b_id x = i) (bookings st) = [c]"
      "status c = ''checked_in''"
    by auto
  from flt ic have "flt 0 = Healthy \<and> flt 1 = Healthy \<and> flt 2 \<noteq> Throwing \<and>
       filter (\<lambda>x. b_id x = i) (bookings st) = [c] \<and> status c = ''checked_in''"
    by simp
  from handleCheckOut_run [OF this] ic(1)
  obtain st' where
    "handleCheckOut flt now bookingId st =
       (Sent 200 (MessageBooking ''Guest checked out successfully'' (Some (c\<lparr>status := ''checked_out'', actual_check_out := Some now\<rparr>))), st')"
    and "filter (\<lambda>x. b_id x = i) (bookings st') = [c\<lparr>status := ''checked_out'', actual_check_out := Some now\<rparr>]"
    and "filter (\<lambda>x. b_id x \<noteq> i) (bookings st') = filter (\<lambda>x. b_id x \<noteq> i) (bookings st)"
    and "rooms st' =
            (if flt 2 = Healthy
             then map (\<lambda>r. if r_id r = room_id c then r\<lparr>is_available := True\<rparr> else r) (rooms st)
             else rooms st)"
    and "guests st' = guests st"
    by auto
  with ic show "\<exists>i c. bookingId = Some i \<and> filter (\<lambda>x. b_id x = i) (bookings st) = [c] \<and>
             status c = ''checked_in'' \<and>
             fst (handleCheckOut flt now bookingId st) =
               Sent 200 (MessageBooking ''Guest checked out successfully''
                 (Some (c\<lparr>status := ''checked_out'', actual_check_out := Some now\<rparr>))) \<and>
             filter (\<lambda>x. b_id x = i) (bookings (snd (handleCheckOut flt now bookingId st))) =
               [c\<lparr>status := ''checked_out'', actual_check_out := Some now\<rparr>] \<and>
             filter (\<lambda>x. b_id x \<noteq> i) (bookings (snd (handleCheckOut flt now bookingId st))) =
               filter (\<lambda>x. b_id x \<noteq> i) (bookings st) \<and>
             rooms (snd (handleCheckOut flt now bookingId st)) =
            (if flt 2 = Healthy
             then map (\<lambda>r. if r_id r = room_id c then r\<lparr>is_available := True\<rparr> else r) (rooms st)
             else rooms st) \<and>
             guests (snd (handleCheckOut flt now bookingId st)) = guests st"
    by simp
qed

theorem handleCheckOut_iff_checked_in_witness:
  "handleCheckOut (\<lambda>_. Healthy) 1000 (Some 9) lifecycle_store =
     (Sent 404 (Error ''Booking not found''), lifecycle_store)
   \<and> handleCheckOut (\<lambda>_. Healthy) 1000 (Some 1) lifecycle_store =
     (Sent 400 (Error ''Only checked-in guests can be checked out''), lifecycle_store)
   \<and> (\<exists>st'. handleCheckOut (\<lambda>_. Healthy) 1000 (Some 2) lifecycle_store =
          (Sent 200 (MessageBooking ''Guest checked out successfully''
             (Some (booking2\<lparr>status := ''checked_out'', actual_check_out := Some 1000\<rparr>))), st')
        \<and> rooms st' = [room101, room102\<lparr>is_available := True\<rparr>])
   \<and> (\<exists>st'. handleCheckOut (\<lambda>i. if i = 2 then Failing else Healthy) 1000 (Some 2)
              lifecycle_store =
          (Sent 200 (MessageBooking ''Guest checked out successfully''
             (Some (booking2\<lparr>status := ''checked_out'', actual_check_out := Some 1000\<rparr>))), st')
        \<and> rooms st' = [room101, room102])
   \<and> status booking2 = ''checked_in''
   \<and> succeeded (fst (handleCheckOut (\<lambda>_. Healthy) 1000 (Some 2) lifecycle_store))
   \<and> filter (\<lambda>x. b_id x = 2)
       (bookings (snd (handleCheckOut (\<lambda>_. Healthy) 1000 (Some 2) lifecycle_store))) =
       [booking2\<lparr>status := ''checked_out'', actual_check_out := Some 1000\<rparr>]
   \<and> rooms (snd (handleCheckOut (\<lambda>_. Healthy) 1000 (Some 2) lifecycle_store)) =
       [room101, room102\<lparr>is_available := True\<rparr>]"
proof -
  let ?lost = "\<lambda>i::nat. if i = 2 then Failing else Healthy"
  note inst = handleCheckOut_iff_checked_in [where st = lifecycle_store
      and now = 1000 and bookingId = "Some 2"]
  have unknown: "filter (\<lambda>x. b_id x = 9) (bookings lifecycle_store) = []"
    by (simp add: lifecycle_store_def example_rows)
  have second: "filter (\<lambda>x. b_id x = 2) (bookings lifecycle_store) = [booking2]"
    by (simp add: lifecycle_store_def example_rows)
  have first: "filter (\<lambda>x. b_id x = 1) (bookings lifecycle_store) = [booking1]"
    by (simp add: lifecycle_store_def example_rows)
  have st2: "status booking2 = ''checked_in''" and st1: "status booking1 \<noteq> ''checked_in''"
    by (simp_all add: example_rows)
  have rs: "map (\<lambda>r. if r_id r = room_id booking2 then r\<lparr>is_available := True\<rparr> else r)
               (rooms lifecycle_store) = [room101, room102\<lparr>is_available := True\<rparr>]"
    "rooms lifecycle_store = [room101, room102]"
    by (simp_all add: lifecycle_store_def example_rows)
  have a: "handleCheckOut (\<lambda>_. Healthy) 1000 (Some 9) lifecycle_store =
     (Sent 404 (Error ''Booking not found''), lifecycle_store)"
    using inst [where flt = "\<lambda>_. Healthy" and bid = 9, THEN conjunct1] unknown by simp
  have b: "handleCheckOut (\<lambda>_. Healthy) 1000 (Some 1) lifecycle_store =
     (Sent 400 (Error ''Only checked-in guests can be checked out''), lifecycle_store)"
    using inst [where flt = "\<lambda>_. Healthy" and bid = 1 and b = booking1, THEN conjunct2, THEN conjunct1] first st1
    by simp
  have c: "\<exists>st'. handleCheckOut (\<lambda>_. Healthy) 1000 (Some 2) lifecycle_store =
          (Sent 200 (MessageBooking ''Guest checked out successfully''
             (Some (booking2\<lparr>status := ''checked_out'', actual_check_out := Some 1000\<rparr>))), st')
        \<and> rooms st' = [room101, room102\<lparr>is_available := True\<rparr>]"
    using inst [where flt = "\<lambda>_. Healthy" and bid = 2 and b = booking2, THEN conjunct2, THEN conjunct2, THEN conjunct1] second st2 rs
    by auto
  have d: "\<exists>st'. handleCheckOut ?lost 1000 (Some 2) lifecycle_store =
          (Sent 200 (MessageBooking ''Guest checked out successfully''
             (Some (booking2\<lparr>status := ''checked_out'', actual_check_out := Some 1000\<rparr>))), st')
        \<and> rooms st' = [room101, room102]"
    using inst [where flt = ?lost and bid = 2 and b = booking2, THEN conjunct2, THEN conjunct2, THEN conjunct1] second st2 rs
    by auto
  from c have ok: "succeeded (fst (handleCheckOut (\<lambda>_. Healthy) 1000 (Some 2) lifecycle_store))"
    by auto
  from inst [where flt = "\<lambda>_. Healthy" and bid = 2, THEN conjunct2, THEN conjunct2, THEN conjunct2] ok obtain i c where
    ic: "Some (2::int) = Some i" "filter (\<lambda>x. b_id x = i) (bookings lifecycle_store) = [c]"
    and post: "filter (\<lambda>x. b_id x = i)
       (bookings (snd (handleCheckOut (\<lambda>_. Healthy) 1000 (Some 2) lifecycle_store))) =
       [c\<lparr>status := ''checked_out'', actual_check_out := Some 1000\<rparr>]"
      "rooms (snd (handleCheckOut (\<lambda>_. Healthy) 1000 (Some 2) lifecycle_store)) =
       (if (\<lambda>_::nat. Healthy) 2 = Healthy
        then map (\<lambda>r. if r_id r = room_id c then r\<lparr>is_available := True\<rparr> else r)
               (rooms lifecycle_store)
        else rooms lifecycle_store)"
    by blast
  from ic second have "i = 2" "c = booking2"
    by simp_all
  with post rs have e: "filter (\<lambda>x. b_id x = 2)
       (bookings (snd (handleCheckOut (\<lambda>_. Healthy) 1000 (Some 2) lifecycle_store))) =
       [booking2\<lparr>status := ''checked_out'', actual_check_out := Some 1000\<rparr>]"
    "rooms (snd (handleCheckOut (\<lambda>_. Healthy) 1000 (Some 2) lifecycle_store)) =
       [room101, room102\<lparr>is_available := True\<rparr>]"
    by simp_all
  show ?thesis
    using a b c d st2 ok e by blast
qed

section \<open>CancelBooking\<close>

lemma handleCancelBooking_success_needs_cancellable:
  assumes "succeeded (fst (handleCancelBooking flt bookingId st))"
  shows "flt 0 = Healthy \<and> flt 1 = Healthy \<and> flt 2 \<noteq> Throwing \<and>
         (\<exists>i c. bookingId = Some i \<and> filter (\<lambda>x. b_id x = i) (bookings st) = [c] \<and>
                status c \<noteq> ''checked_in'' \<and> status c \<noteq> ''cancelled'' \<and>
                status c \<noteq> ''checked_out'')"
proof (cases bookingId)
  case None
  with assms show ?thesis
    by (simp add: handleCancelBooking_def)
next
  case (Some i)
  show ?thesis
  proof (cases "flt 0")
    case Healthy
    show ?thesis
    proof (cases "filter (\<lambda>x. b_id x = i) (bookings st)")
      case Nil
      with assms Some Healthy show ?thesis
        by (simp add: handleCancelBooking_def single_select)
    next
      case (Cons c cs)
      show ?thesis
      proof (cases cs)
        case Nil
        with Cons have rows: "filter (\<lambda>x. b_id x = i) (bookings st) = [c]"
          by simp
        show ?thesis
        proof (cases "status c \<noteq> ''checked_in'' \<and> status c \<noteq> ''cancelled'' \<and> status c \<noteq> ''checked_out''")
          case True
          with assms Some Healthy rows show ?thesis
            by (cases "flt 1"; cases "flt 2")
               (simp_all add: handleCancelBooking_def single_select single_rows update_rows_def)
        next
          case False
          with assms Some Healthy rows show ?thesis
            by (auto simp: handleCancelBooking_def single_select)
        qed
      next
        case (Cons d ds)
        with assms Some Healthy \<open>filter (\<lambda>x. b_id x = i) (bookings st) = c # cs\<close>
        show ?thesis
          by (simp add: handleCancelBooking_def single_select)
      qed
    qed
  next
    case Failing
    with assms Some show ?thesis
      by (simp add: handleCancelBooking_def single_select)
  next
    case Throwing
    with assms Some show ?thesis
      by (simp add: handleCancelBooking_def single_select)
  qed
qed

lemma handleCancelBooking_run:
  assumes "flt 0 = Healthy \<and> flt 1 = Healthy \<and> flt 2 \<noteq> Throwing \<and>
       filter (\<lambda>x. b_id x = bid) (bookings st) = [b] \<and>
       status b \<noteq> ''checked_in'' \<and> status b \<noteq> ''cancelled'' \<and> status b \<noteq> ''checked_out''"
  shows "\<exists>st'. handleCancelBooking flt (Some bid) st =
          (Sent 200 (Message ''Booking cancelled successfully''), st')
        \<and> filter (\<lambda>x. b_id x = bid) (bookings st') = [b\<lparr>status := ''cancelled''\<rparr>]
        \<and> filter (\<lambda>x. b_id x \<noteq> bid) (bookings st') =
            filter (\<lambda>x. b_id x \<noteq> bid) (bookings st)
        \<and> rooms st' =
            (if flt 2 = Healthy
             then map (\<lambda>r. if r_id r = room_id b then r\<lparr>is_available := True\<rparr> else r) (rooms st)
             else rooms st)
        \<and> guests st' = guests st"
proof -
  let ?f = "\<lambda>x. x\<lparr>status := ''cancelled''\<rparr>"
  let ?bs = "map (\<lambda>x. if b_id x = bid then ?f x else x) (bookings st)"
  let ?rs = "if flt 2 = Healthy
             then map (\<lambda>r. if r_id r = room_id b then r\<lparr>is_available := True\<rparr> else r) (rooms st)
             else rooms st"
  note a = assms
  have run: "handleCancelBooking flt (Some bid) st =
      (Sent 200 (Message ''Booking cancelled successfully''), st\<lparr>bookings := ?bs, rooms := ?rs\<rparr>)"
    using a by (cases "flt 2") (simp_all add: handleCancelBooking_def single_select update_rows_def)
  have own: "filter (\<lambda>x. b_id x = bid) ?bs = [?f b]"
    using a filter_patched [of "\<lambda>x. b_id x = bid" ?f "bookings st"] by simp
  have others: "filter (\<lambda>x. b_id x \<noteq> bid) ?bs = filter (\<lambda>x. b_id x \<noteq> bid) (bookings st)"
    using filter_unpatched [of "\<lambda>x. b_id x = bid" ?f "bookings st"] by simp
  show ?thesis
    using run own others by simp
qed

text \<open>
  C4. For a booking id that resolves to one stored booking \<open>b\<close>, CancelBooking is
  refused with its own message for each of the statuses \<open>checked_in\<close>, \<open>cancelled\<close> and
  \<open>checked_out\<close> (three different messages, status 400, nothing written). With status
  \<open>booked\<close> (and the update accepted by the store) the answer is 200, the status becomes
  \<open>cancelled\<close>, and the room of the booking is set available as a best-effort second
  write. Conversely, in a store whose bookings carry one of the four statuses, a
  successful answer means that the id resolved to a booking with status \<open>booked\<close>.
  And whatever the store does, a successful answer means that the id resolved to a
  booking with none of the three refused statuses, that the store now holds this booking
  with status \<open>cancelled\<close> and nothing else about the bookings changed, and that the
  room of the booking was set available unless the second write returned an error.
\<close>

theorem handleCancelBooking_iff_booked:
  "(flt 0 = Healthy \<and> filter (\<lambda>x. b_id x = bid) (bookings st) = [] \<longrightarrow>
      handleCancelBooking flt (Some bid) st = (Sent 404 (Error ''Booking not found''), st))
   \<and> (flt 0 = Healthy \<and> filter (\<lambda>x. b_id x = bid) (bookings st) = [b] \<and>
       status b = ''checked_in'' \<longrightarrow>
      handleCancelBooking flt (Some bid) st =
        (Sent 400 (Error ''Cannot cancel a booking for a checked-in guest''), st))
   \<and> (flt 0 = Healthy \<and> filter (\<lambda>x. b_id x = bid) (bookings st) = [b] \<and>
       status b = ''cancelled'' \<longrightarrow>
      handleCancelBooking flt (Some bid) st =
        (Sent 400 (Error ''Booking is already cancelled''), st))
   \<and> (flt 0 = Healthy \<and> filter (\<lambda>x. b_id x = bid) (bookings st) = [b] \<and>
       status b = ''checked_out'' \<longrightarrow>
      handleCancelBooking flt (Some bid) st =
        (Sent 400 (Error ''Cannot cancel a completed booking''), st))
   \<and> distinct [''Cannot cancel a booking for a checked-in guest'',
        ''Booking is already cancelled'', ''Cannot cancel a completed booking'']
   \<and> (flt 0 = Healthy \<and> flt 1 = Healthy \<and> flt 2 \<noteq> Throwing \<and>
       filter (\<lambda>x. b_id x = bid) (bookings st) = [b] \<and> status b = ''booked'' \<longrightarrow>
      (\<exists>st'. handleCancelBooking flt (Some bid) st =
          (Sent 200 (Message ''Booking cancelled successfully''), st')
        \<and> filter (\<lambda>x. b_id x = bid) (bookings st') = [b\<lparr>status := ''cancelled''\<rparr>]
        \<and> filter (\<lambda>x. b_id x \<noteq> bid) (bookings st') =
            filter (\<lambda>x. b_id x \<noteq> bid) (bookings st)
        \<and> rooms st' =
            (if flt 2 = Healthy
             then map (\<lambda>r. if r_id r = room_id b then r\<lparr>is_available := True\<rparr> else r) (rooms st)
             else rooms st)
        \<and> guests st' = guests st))
   \<and> (succeeded (fst (handleCancelBooking flt bookingId st)) \<and>
       list_all (\<lambda>c. status c \<in> set booking_statuses) (bookings st) \<longrightarrow>
      (\<exists>i c. bookingId = Some i \<and> filter (\<lambda>x. b_id x = i) (bookings st) = [c] \<and>
             status c = ''booked''))
   \<and> (succeeded (fst (handleCancelBooking flt bookingId st)) \<longrightarrow>
      (\<exists>i c. bookingId = Some i \<and> filter (\<lambda>x. b_id x = i) (bookings st) = [c] \<and>
             status c \<noteq> ''checked_in'' \<and> status c \<noteq> ''cancelled'' \<and>
             status c \<noteq> ''checked_out'' \<and>
             fst (handleCancelBooking flt bookingId st) =
               Sent 200 (Message ''Booking cancelled successfully'') \<and>
             filter (\<lambda>x. b_id x = i) (bookings (snd (handleCancelBooking flt bookingId st))) =
               [c\<lparr>status := ''cancelled''\<rparr>] \<and>
             filter (\<lambda>x. b_id x \<noteq> i) (bookings (snd (handleCancelBooking flt bookingId st))) =
               filter (\<lambda>x. b_id x \<noteq> i) (bookings st) \<and>
             rooms (snd (handleCancelBooking flt bookingId st)) =
               (if flt 2 = Healthy
                then map (\<lambda>r. if r_id r = room_id c then r\<lparr>is_available := True\<rparr> else r)
                       (rooms st)
                else rooms st) \<and>
             guests (snd (handleCancelBooking flt bookingId st)) = guests st))"
proof (intro conjI impI)
  assume "flt 0 = Healthy \<and> filter (\<lambda>x. b_id x = bid) (bookings st) = []"
  then show "handleCancelBooking flt (Some bid) st = (Sent 404 (Error ''Booking not found''), st)"
    by (simp add: handleCancelBooking_def single_select)
next
  assume "flt 0 = Healthy \<and> filter (\<lambda>x. b_id x = bid) (bookings st) = [b] \<and>
     status b = ''checked_in''"
  then show "handleCancelBooking flt (Some bid) st =
        (Sent 400 (Error ''Cannot cancel a booking for a checked-in guest''), st)"
    by (simp add: handleCancelBooking_def single_select)
next
  assume "flt 0 = Healthy \<and> filter (\<lambda>x. b_id x = bid) (bookings st) = [b] \<and>
     status b = ''cancelled''"
  then show "handleCancelBooking flt (Some bid) st =
        (Sent 400 (Error ''Booking is already cancelled''), st)"
    by (simp add: handleCancelBooking_def single_select)
next
  assume "flt 0 = Healthy \<and> filter (\<lambda>x. b_id x = bid) (bookings st) = [b] \<and>
     status b = ''checked_out''"
  then show "handleCancelBooking flt (Some bid) st =
        (Sent 400 (Error ''Cannot cancel a completed booking''), st)"
    by (simp add: handleCancelBooking_def single_select)
next
  show "distinct [''Cannot cancel a booking for a checked-in guest'',
        ''Booking is already cancelled'', ''Cannot cancel a completed booking'']"
    by simp
next
  assume "flt 0 = Healthy \<and> flt 1 = Healthy \<and> flt 2 \<noteq> Throwing \<and>
       filter (\<lambda>x. b_id x = bid) (bookings st) = [b] \<and> status b = ''booked''"
  then have "flt 0 = Healthy \<and> flt 1 = Healthy \<and> flt 2 \<noteq> Throwing \<and>
       filter (\<lambda>x. b_id x = bid) (bookings st) = [b] \<and>
       status b \<noteq> ''checked_in'' \<and> status b \<noteq> ''cancelled'' \<and> status b \<noteq> ''checked_out''"
    by simp
  then show "\<exists>st'. handleCancelBooking flt (Some bid) st =
          (Sent 200 (Message ''Booking cancelled successfully''), st')
        \<and> filter (\<lambda>x. b_id x = bid) (bookings st') = [b\<lparr>status := ''cancelled''\<rparr>]
        \<and> filter (\<lambda>x. b_id x \<noteq> bid) (bookings st') =
            filter (\<lambda>x. b_id x \<noteq> bid) (bookings st)
        \<and> rooms st' =
            (if flt 2 = Healthy
             then map (\<lambda>r. if r_id r = room_id b then r\<lparr>is_available := True\<rparr> else r) (rooms st)
             else rooms st)
        \<and> guests st' = guests st"
    by (rule handleCancelBooking_run)
next
  assume a: "succeeded (fst (handleCancelBooking flt bookingId st)) \<and>
       list_all (\<lambda>c. status c \<in> set booking_statuses) (bookings st)"
  then obtain i c where ic: "bookingId = Some i" "filter (\<lambda>x. b_id x = i) (bookings st) = [c]"
      "status c \<noteq> ''checked_in''" "status c \<noteq> ''cancelled''" "status c \<noteq> ''checked_out''"
    using handleCancelBooking_success_needs_cancellable by blast
  from ic(2) have "c \<in> set (filter (\<lambda>x. b_id x = i) (bookings st))"
    by simp
  then have "c \<in> set (bookings st)"
    by simp
  with a have "status c \<in> set booking_statuses"
    by (simp add: list_all_iff)
  with ic(3-5) have "status c = ''booked''"
    by (auto simp: booking_statuses_def)
  with ic(1,2) show "\<exists>i c. bookingId = Some i \<and> filter (\<lambda>x. b_id x = i) (bookings st) = [c] \<and>
             status c = ''booked''"
    by blast
next
  assume ok: "succeeded (fst (handleCancelBooking flt bookingId st))"
  from handleCancelBooking_success_needs_cancellable [OF ok] obtain i c where
    flt: "flt 0 = Healthy \<and> flt 1 = Healthy \<and> flt 2 \<noteq> Throwing"
    and ic: "bookingId = Some i" "filter (\<lambda>x. b_id x = i) (bookings st) = [c]"
      "status c \<noteq> ''checked_in''" "status c \<noteq> ''cancelled''" "status c \<noteq> ''checked_out''"
    by auto
  from flt ic have "flt 0 = Healthy \<and> flt 1 = Healthy \<and> flt 2 \<noteq> Throwing \<and>
       filter (\<lambda>x. b_id x = i) (bookings st) = [c] \<and>
       status c \<noteq> ''checked_in'' \<and> status c \<noteq> ''cancelled'' \<and> status c \<noteq> ''checked_out''"
    by simp
  from handleCancelBooking_run [OF this] ic(1)
  obtain st' where
    "handleCancelBooking flt bookingId st =
       (Sent 200 (Message ''Booking cancelled successfully''), st')"
    and "filter (\<lambda>x. b_id x = i) (bookings st') = [c\<lparr>status := ''cancelled''\<rparr>]"
    and "filter (\<lambda>x. b_id x \<noteq> i) (bookings st') = filter (\<lambda>x. b_id x \<noteq> i) (bookings st)"
    and "rooms st' =
            (if flt 2 = Healthy
             then map (\<lambda>r. if r_id r = room_id c then r\<lparr>is_available := True\<rparr> else r) (rooms st)
             else rooms st)"
    and "guests st' = guests st"
    by auto
  with ic show "\<exists>i c. bookingId = Some i \<and> filter (\<lambda>x. b_id x = i) (bookings st) = [c] \<and>
             status c \<noteq> ''checked_in'' \<and> status c \<noteq> ''cancelled'' \<and>
             status c \<noteq> ''checked_out'' \<and>
             fst (handleCancelBooking flt bookingId st) =
               Sent 200 (Message ''Booking cancelled successfully'') \<and>
             filter (\<lambda>x. b_id x = i) (bookings (snd (handleCancelBooking flt bookingId st))) =
               [c\<lparr>status := ''cancelled''\<rparr>] \<and>
             filter (\<lambda>x. b_id x \<noteq> i) (bookings (snd (handleCancelBooking flt bookingId st))) =
               filter (\<lambda>x. b_id x \<noteq> i) (bookings st) \<and>
             rooms (snd (handleCancelBooking flt bookingId st)) =
               (if flt 2 = Healthy
                then map (\<lambda>r. if r_id r = room_id c then r\<lparr>is_available := True\<rparr> else r)
                       (rooms st)
                else rooms st) \<and>
             guests (snd (handleCancelBooking flt bookingId st)) = guests st"
    by simp
qed

theorem handleCancelBooking_iff_booked_witness:
  "handleCancelBooking (\<lambda>_. Healthy) (Some 9) lifecycle_store =
     (Sent 404 (Error ''Booking not found''), lifecycle_store)
   \<and> handleCancelBooking (\<lambda>_. Healthy) (Some 2) lifecycle_store =
     (Sent 400 (Error ''Cannot cancel a booking for a checked-in guest''), lifecycle_store)
   \<and> handleCancelBooking (\<lambda>_. Healthy) (Some 4) lifecycle_store =
     (Sent 400 (Error ''Booking is already cancelled''), lifecycle_store)
   \<and> handleCancelBooking (\<lambda>_. Healthy) (Some 3) lifecycle_store =
     (Sent 400 (Error ''Cannot cancel a completed booking''), lifecycle_store)
   \<and> (\<exists>st'. handleCancelBooking (\<lambda>_. Healthy) (Some 1) lifecycle_store =
          (Sent 200 (Message ''Booking cancelled successfully''), st')
        \<and> filter (\<lambda>x. b_id x = 1) (bookings st') = [booking1\<lparr>status := ''cancelled''\<rparr>]
        \<and> rooms st' = [room101\<lparr>is_available := True\<rparr>, room102])
   \<and> (\<exists>st'. handleCancelBooking (\<lambda>i. if i = 2 then Failing else Healthy) (Some 1)
              lifecycle_store =
          (Sent 200 (Message ''Booking cancelled successfully''), st')
        \<and> rooms st' = [room101, room102])
   \<and> list_all (\<lambda>c. status c \<in> set booking_statuses) (bookings lifecycle_store)
   \<and> (\<exists>i c. Some (1::int) = Some i \<and> filter (\<lambda>x. b_id x = i) (bookings lifecycle_store) = [c]
          \<and> status c = ''booked'')
   \<and> succeeded (fst (handleCancelBooking (\<lambda>_. Healthy) (Some 1) lifecycle_store))
   \<and> filter (\<lambda>x. b_id x = 1)
       (bookings (snd (handleCancelBooking (\<lambda>_. Healthy) (Some 1) lifecycle_store))) =
       [booking1\<lparr>status := ''cancelled''\<rparr>]
   \<and> rooms (snd (handleCancelBooking (\<lambda>_. Healthy) (Some 1) lifecycle_store)) =
       [room101\<lparr>is_available := True\<rparr>, room102]"
proof -
  let ?lost = "\<lambda>i::nat. if i = 2 then Failing else Healthy"
  note inst = handleCancelBooking_iff_booked [where st = lifecycle_store
      and bookingId = "Some 1"]
  have rows: "filter (\<lambda>x. b_id x = 9) (bookings lifecycle_store) = []"
    "filter (\<lambda>x. b_id x = 1) (bookings lifecycle_store) = [booking1]"
    "filter (\<lambda>x. b_id x = 2) (bookings lifecycle_store) = [booking2]"
    "filter (\<lambda>x. b_id x = 3) (bookings lifecycle_store) = [booking3]"
    "filter (\<lambda>x. b_id x = 4) (bookings lifecycle_store) = [booking4]"
    by (simp_all add: lifecycle_store_def example_rows)
  have sts: "status booking1 = ''booked''" "status booking2 = ''checked_in''"
    "status booking3 = ''checked_out''" "status booking4 = ''cancelled''"
    by (simp_all add: example_rows)
  have rs: "map (\<lambda>r. if r_id r = room_id booking1 then r\<lparr>is_available := True\<rparr> else r)
               (rooms lifecycle_store) = [room101\<lparr>is_available := True\<rparr>, room102]"
    "rooms lifecycle_store = [room101, room102]"
    by (simp_all add: lifecycle_store_def example_rows)
  have known: "list_all (\<lambda>c. status c \<in> set booking_statuses) (bookings lifecycle_store)"
    by (simp add: lifecycle_store_def example_rows booking_statuses_def)
  have a: "handleCancelBooking (\<lambda>_. Healthy) (Some 9) lifecycle_store =
     (Sent 404 (Error ''Booking not found''), lifecycle_store)"
    using inst [where flt = "\<lambda>_. Healthy" and bid = 9, THEN conjunct1] rows by simp
  have b: "handleCancelBooking (\<lambda>_. Healthy) (Some 2) lifecycle_store =
     (Sent 400 (Error ''Cannot cancel a booking for a checked-in guest''), lifecycle_store)"
    using inst [where flt = "\<lambda>_. Healthy" and bid = 2 and b = booking2, THEN conjunct2, THEN conjunct1] rows sts
    by simp
  have c: "handleCancelBooking (\<lambda>_. Healthy) (Some 4) lifecycle_store =
     (Sent 400 (Error ''Booking is already cancelled''), lifecycle_store)"
    using inst [where flt = "\<lambda>_. Healthy" and bid = 4 and b = booking4, THEN conjunct2, THEN conjunct2, THEN conjunct1] rows sts
    by simp
  have d: "handleCancelBooking (\<lambda>_. Healthy) (Some 3) lifecycle_store =
     (Sent 400 (Error ''Cannot cancel a completed booking''), lifecycle_store)"
    using inst [where flt = "\<lambda>_. Healthy" and bid = 3 and b = booking3, THEN conjunct2, THEN conjunct2, THEN conjunct2, THEN conjunct1] rows sts
    by simp
  have e: "\<exists>st'. handleCancelBooking (\<lambda>_. Healthy) (Some 1) lifecycle_store =
          (Sent 200 (Message ''Booking cancelled successfully''), st')
        \<and> filter (\<lambda>x. b_id x = 1) (bookings st') = [booking1\<lparr>status := ''cancelled''\<rparr>]
        \<and> rooms st' = [room101\<lparr>is_available := True\<rparr>, room102]"
    using inst [where flt = "\<lambda>_. Healthy" and bid = 1 and b = booking1, THEN conjunct2, THEN conjunct2, THEN conjunct2, THEN conjunct2, THEN conjunct2, THEN conjunct1] rows sts rs
    by auto
  have f: "\<exists>st'. handleCancelBooking ?lost (Some 1) lifecycle_store =
          (Sent 200 (Message ''Booking cancelled successfully''), st')
        \<and> rooms st' = [room101, room102]"
    using inst [where flt = ?lost and bid = 1 and b = booking1, THEN conjunct2, THEN conjunct2, THEN conjunct2, THEN conjunct2, THEN conjunct2, THEN conjunct1] rows sts rs
    by auto
  from e have ok: "succeeded (fst (handleCancelBooking (\<lambda>_. Healthy) (Some 1) lifecycle_store))"
    by auto
  have g: "\<exists>i c. Some (1::int) = Some i \<and> filter (\<lambda>x. b_id x = i) (bookings lifecycle_store) = [c]
          \<and> status c = ''booked''"
    using inst [where flt = "\<lambda>_. Healthy", THEN conjunct2, THEN conjunct2, THEN conjunct2, THEN conjunct2, THEN conjunct2, THEN conjunct2, THEN conjunct1] ok known by blast
  from inst [where flt = "\<lambda>_. Healthy", THEN conjunct2, THEN conjunct2, THEN conjunct2, THEN conjunct2, THEN conjunct2, THEN conjunct2, THEN conjunct2] ok obtain i c where
    ic: "Some (1::int) = Some i" "filter (\<lambda>x. b_id x = i) (bookings lifecycle_store) = [c]"
    and post: "filter (\<lambda>x. b_id x = i)
       (bookings (snd (handleCancelBooking (\<lambda>_. Healthy) (Some 1) lifecycle_store))) =
       [c\<lparr>status := ''cancelled''\<rparr>]"
      "rooms (snd (handleCancelBooking (\<lambda>_. Healthy) (Some 1) lifecycle_store)) =
       (if (\<lambda>_::nat. Healthy) 2 = Healthy
        then map (\<lambda>r. if r_id r = room_id c then r\<lparr>is_available := True\<rparr> else r)
               (rooms lifecycle_store)
        else rooms lifecycle_store)"
    by blast
  from ic rows have "i = 1" "c = booking1"
    by simp_all
  with post rs have h: "filter (\<lambda>x. b_id x = 1)
       (bookings (snd (handleCancelBooking (\<lambda>_. Healthy) (Some 1) lifecycle_store))) =
       [booking1\<lparr>status := ''cancelled''\<rparr>]"
    "rooms (snd (handleCancelBooking (\<lambda>_. Healthy) (Some 1) lifecycle_store)) =
       [room101\<lparr>is_available := True\<rparr>, room102]"
    by simp_all
  show ?thesis
    using a b c d e f known g ok h by blast
qed

section \<open>CreateBooking\<close>

lemmas validate_eval =
  check_key_def unknown_keys_def max_safe_def round_to_numeral lib0_def booking_request_def

text \<open>
  The store reads neither operand of the conflict query the handler sends, so the query
  is answered with an error (or throws) and the handler never finds a conflict. Had the
  operands been ISO text, the query would have selected by \<open>conflict_filter\<close>.
\<close>

lemma conflict_query_sent:
  "conflict_query f rid (DateToString check_out) (DateToString check_in) rows =
     (case f of Throwing \<Rightarrow> Rejected | _ \<Rightarrow> Reply None True)"
  by (simp add: conflict_query_def)

lemma conflict_query_iso:
  "conflict_query f rid (IsoText check_out) (IsoText check_in) rows =
     select f (filter (conflict_filter rid check_in check_out) rows)"
  by (simp add: conflict_query_def)

lemma conflict_found_never: "\<not> conflict_found f rid check_in check_out st"
  by (cases f) (simp_all add: conflict_found_def conflict_query_sent)

lemma conflict_found_faulty:
  "f \<noteq> Healthy \<Longrightarrow> conflict_found f rid check_in check_out st = False"
  by (simp add: conflict_found_never)

lemma conflict_filter_any_active:
  assumes "check_in_date b \<le> check_out_date b" and "check_in \<le> check_out"
  shows "conflict_filter rid check_in check_out b =
           (room_id b = rid \<and> status b \<in> set active_statuses)"
  using assms by (auto simp: conflict_filter_def)

text \<open>The handler up to the conflict check, and from there on.\<close>

lemma handleCreateBooking_guest_missing:
  assumes "validate lib bookingSchema p = Inr v" and "vint v ''guest_id'' = Some gid"
    and "flt 0 = Healthy" and "filter (\<lambda>g. g_id g = gid) (guests st) = []"
  shows "handleCreateBooking lib flt p st = (Sent 400 (Error ''Guest not found''), st)"
  using assms by (simp add: handleCreateBooking_def or_else_def single_select Let_def)

lemma handleCreateBooking_room_missing:
  assumes "validate lib bookingSchema p = Inr v" and "vint v ''guest_id'' = Some gid"
    and "vint v ''room_id'' = Some rid"
    and "flt 0 = Healthy" and "filter (\<lambda>g. g_id g = gid) (guests st) = [g]"
    and "flt 1 = Healthy" and "filter (\<lambda>r. r_id r = rid) (rooms st) = []"
  shows "handleCreateBooking lib flt p st = (Sent 400 (Error ''Room not found''), st)"
  using assms by (simp add: handleCreateBooking_def or_else_def single_select Let_def)

lemma handleCreateBooking_room_unavailable:
  assumes "validate lib bookingSchema p = Inr v" and "vint v ''guest_id'' = Some gid"
    and "vint v ''room_id'' = Some rid"
    and "flt 0 = Healthy" and "filter (\<lambda>g. g_id g = gid) (guests st) = [g]"
    and "flt 1 = Healthy" and "filter (\<lambda>r. r_id r = rid) (rooms st) = [r]"
    and "\<not> is_available r"
  shows "handleCreateBooking lib flt p st = (Sent 400 (Error ''Room is not available''), st)"
  using assms by (simp add: handleCreateBooking_def or_else_def single_select Let_def)

lemma handleCreateBooking_checked:
  assumes "validate lib bookingSchema p = Inr v" and "vint v ''guest_id'' = Some gid"
    and "vint v ''room_id'' = Some rid"
    and "vdate v ''check_in_date'' = Some check_in"
    and "vdate v ''check_out_date'' = Some check_out"
    and "flt 0 = Healthy" and "filter (\<lambda>g. g_id g = gid) (guests st) = [g]"
    and "flt 1 = Healthy" and "filter (\<lambda>r. r_id r = rid) (rooms st) = [r]"
    and "is_available r"
  shows "handleCreateBooking lib flt p st =
     (if conflict_found (flt 2) rid check_in check_out st
      then (Sent 400 (Error ''Room is already booked for these dates''), st)
      else
        (case flt 3 of
           Healthy \<Rightarrow>
             (case flt 4 of
                Healthy \<Rightarrow>
                  (Sent 201 (BookingJoined (Some (new_booking v (fresh_id (map b_id (bookings st)))))
                     (guest_summary st gid) (room_summary st rid)),
                   st\<lparr>bookings := bookings st @ [new_booking v (fresh_id (map b_id (bookings st)))],
                      rooms := map (\<lambda>r. if r_id r = rid then r\<lparr>is_available := False\<rparr> else r)
                                 (rooms st)\<rparr>)
              | Failing \<Rightarrow>
                  (Sent 201 (BookingJoined (Some (new_booking v (fresh_id (map b_id (bookings st)))))
                     (guest_summary st gid) (room_summary st rid)),
                   st\<lparr>bookings := bookings st @ [new_booking v (fresh_id (map b_id (bookings st)))]\<rparr>)
              | Throwing \<Rightarrow>
                  (Uncaught,
                   st\<lparr>bookings := bookings st @ [new_booking v (fresh_id (map b_id (bookings st)))]\<rparr>))
         | Failing \<Rightarrow> (Sent 500 (Error ''Failed to create booking''), st)
         | Throwing \<Rightarrow> (Uncaught, st)))"
  using assms
  by (cases "flt 3"; cases "flt 4")
     (simp_all add: handleCreateBooking_def or_else_def single_select Let_def
        insert_row_def update_rows_def)

lemma request_7_9:
  "validate lib0 bookingSchema (booking_request 7 9 ''2030-01-20'' ''2030-01-25'') =
     Inr [(''guest_id'', VNum 7), (''room_id'', VNum 9), (''check_in_date'', VDate 20),
          (''check_out_date'', VDate 25), (''total_amount'', VNum 250)]"
  by (simp add: bookingSchema_def validate_eval)

lemma request_1_9:
  "validate lib0 bookingSchema (booking_request 1 9 ''2030-01-20'' ''2030-01-25'') =
     Inr [(''guest_id'', VNum 1), (''room_id'', VNum 9), (''check_in_date'', VDate 20),
          (''check_out_date'', VDate 25), (''total_amount'', VNum 250)]"
  by (simp add: bookingSchema_def validate_eval)

lemma request_1_1:
  "validate lib0 bookingSchema (booking_request 1 1 ''2030-01-20'' ''2030-01-25'') =
     Inr [(''guest_id'', VNum 1), (''room_id'', VNum 1), (''check_in_date'', VDate 20),
          (''check_out_date'', VDate 25), (''total_amount'', VNum 250)]"
  by (simp add: bookingSchema_def validate_eval)

lemma request_18_20:
  "validate lib0 bookingSchema (booking_request 1 1 ''2030-01-18'' ''2030-01-20'') =
     Inr [(''guest_id'', VNum 1), (''room_id'', VNum 1), (''check_in_date'', VDate 18),
          (''check_out_date'', VDate 20), (''total_amount'', VNum 250)]"
  by (simp add: bookingSchema_def validate_eval)

lemma handleCreateBooking_refusals_write_nothing:
  assumes "fst (handleCreateBooking lib flt p st) \<in>
      {Sent 400 (Error ''Guest not found''), Sent 400 (Error ''Room not found''),
       Sent 400 (Error ''Room is not available'')}"
  shows "snd (handleCreateBooking lib flt p st) = st"
  using assms
  by (cases "flt 3"; cases "flt 4")
     (auto simp: handleCreateBooking_def Let_def insert_row_def update_rows_def
        split: sum.splits reply.splits option.splits if_splits)

text \<open>
  C7. CreateBooking checks, in this order, that the guest exists, that the room exists
  and that the room is marked available. A guest id that resolves to no guest is answered
  "Guest not found" (whatever the room is); with the guest found, a room id that resolves
  to no room is answered "Room not found"; with both found, a room whose \<open>is_available\<close>
  is false is answered "Room is not available". Each of the three answers leaves the
  store as it was: no booking is inserted and no room is changed.
\<close>

theorem handleCreateBooking_checks_in_order:
  assumes "validate lib bookingSchema p = Inr v"
    and "vint v ''guest_id'' = Some gid" and "vint v ''room_id'' = Some rid"
  shows
    "(flt 0 = Healthy \<and> filter (\<lambda>x. g_id x = gid) (guests st) = [] \<longrightarrow>
        handleCreateBooking lib flt p st = (Sent 400 (Error ''Guest not found''), st))
     \<and> (flt 0 = Healthy \<and> filter (\<lambda>x. g_id x = gid) (guests st) = [g] \<and>
         flt 1 = Healthy \<and> filter (\<lambda>x. r_id x = rid) (rooms st) = [] \<longrightarrow>
        handleCreateBooking lib flt p st = (Sent 400 (Error ''Room not found''), st))
     \<and> (flt 0 = Healthy \<and> filter (\<lambda>x. g_id x = gid) (guests st) = [g] \<and>
         flt 1 = Healthy \<and> filter (\<lambda>x. r_id x = rid) (rooms st) = [r] \<and>
         \<not> is_available r \<longrightarrow>
        handleCreateBooking lib flt p st = (Sent 400 (Error ''Room is not available''), st))
     \<and> (fst (handleCreateBooking lib flt p st) \<in>
          {Sent 400 (Error ''Guest not found''), Sent 400 (Error ''Room not found''),
           Sent 400 (Error ''Room is not available'')} \<longrightarrow>
        snd (handleCreateBooking lib flt p st) = st)"
  using assms handleCreateBooking_guest_missing [of lib p v gid flt st]
    handleCreateBooking_room_missing [of lib p v gid rid flt st g]
    handleCreateBooking_room_unavailable [of lib p v gid rid flt st g r]
    handleCreateBooking_refusals_write_nothing [of lib flt p st]
  by blast

theorem handleCreateBooking_checks_in_order_witness:
  "handleCreateBooking lib0 (\<lambda>_. Healthy) (booking_request 7 9 ''2030-01-20'' ''2030-01-25'')
      lifecycle_store = (Sent 400 (Error ''Guest not found''), lifecycle_store)
   \<and> handleCreateBooking lib0 (\<lambda>_. Healthy) (booking_request 1 9 ''2030-01-20'' ''2030-01-25'')
      lifecycle_store = (Sent 400 (Error ''Room not found''), lifecycle_store)
   \<and> handleCreateBooking lib0 (\<lambda>_. Healthy) (booking_request 1 1 ''2030-01-20'' ''2030-01-25'')
      lifecycle_store = (Sent 400 (Error ''Room is not available''), lifecycle_store)
   \<and> snd (handleCreateBooking lib0 (\<lambda>_. Healthy)
        (booking_request 1 1 ''2030-01-20'' ''2030-01-25'') lifecycle_store) = lifecycle_store"
proof -
  have g7: "filter (\<lambda>x. g_id x = 7) (guests lifecycle_store) = []"
    and g1: "filter (\<lambda>x. g_id x = 1) (guests lifecycle_store) = [ada]"
    and r9: "filter (\<lambda>x. r_id x = 9) (rooms lifecycle_store) = []"
    and r1: "filter (\<lambda>x. r_id x = 1) (rooms lifecycle_store) = [room101]"
    and un: "\<not> is_available room101"
    by (simp_all add: lifecycle_store_def example_rows)
  have a: "handleCreateBooking lib0 (\<lambda>_. Healthy)
      (booking_request 7 9 ''2030-01-20'' ''2030-01-25'') lifecycle_store =
      (Sent 400 (Error ''Guest not found''), lifecycle_store)"
    using handleCreateBooking_checks_in_order [OF request_7_9, of 7 9 "\<lambda>_. Healthy" lifecycle_store]
      g7 by (simp add: vint_def)
  have b: "handleCreateBooking lib0 (\<lambda>_. Healthy)
      (booking_request 1 9 ''2030-01-20'' ''2030-01-25'') lifecycle_store =
      (Sent 400 (Error ''Room not found''), lifecycle_store)"
    using handleCreateBooking_checks_in_order [OF request_1_9, of 1 9 "\<lambda>_. Healthy" lifecycle_store ada]
      g1 r9 by (simp add: vint_def)
  have c: "handleCreateBooking lib0 (\<lambda>_. Healthy)
      (booking_request 1 1 ''2030-01-20'' ''2030-01-25'') lifecycle_store =
      (Sent 400 (Error ''Room is not available''), lifecycle_store)"
    using handleCreateBooking_checks_in_order [OF request_1_1, of 1 1 "\<lambda>_. Healthy" lifecycle_store ada room101]
      g1 r1 un by (simp add: vint_def)
  have d: "snd (handleCreateBooking lib0 (\<lambda>_. Healthy)
        (booking_request 1 1 ''2030-01-20'' ''2030-01-25'') lifecycle_store) = lifecycle_store"
    using handleCreateBooking_checks_in_order [OF request_1_1, of 1 1 "\<lambda>_. Healthy" lifecycle_store ada room101]
      c by (simp add: vint_def)
  show ?thesis
    using a b c d by simp
qed

text \<open>
  C5. In CreateBooking a failure of the conflict query (an error in its answer, or an
  exception caught around it) lets the handler go on without the conflict check: the
  booking is inserted and returned with status 201, whatever bookings are on the room.
  An error of the write that sets the room unavailable after the insert is suppressed
  the same way: the answer is 201 with the created booking, and the room stays as it was.
\<close>

theorem handleCreateBooking_best_effort:
  assumes "validate lib bookingSchema p = Inr v"
    and "vint v ''guest_id'' = Some gid" and "vint v ''room_id'' = Some rid"
    and "vdate v ''check_in_date'' = Some check_in"
    and "vdate v ''check_out_date'' = Some check_out"
    and "flt 0 = Healthy" and "filter (\<lambda>x. g_id x = gid) (guests st) = [g]"
    and "flt 1 = Healthy" and "filter (\<lambda>x. r_id x = rid) (rooms st) = [r]"
    and "is_available r" and "flt 3 = Healthy"
  shows
    "(flt 2 \<noteq> Healthy \<and> flt 4 \<noteq> Throwing \<longrightarrow>
        fst (handleCreateBooking lib flt p st) =
          Sent 201 (BookingJoined (Some (new_booking v (fresh_id (map b_id (bookings st)))))
            (guest_summary st gid) (room_summary st rid))
        \<and> bookings (snd (handleCreateBooking lib flt p st)) =
            bookings st @ [new_booking v (fresh_id (map b_id (bookings st)))])
     \<and> (flt 4 = Failing \<and> \<not> conflict_found (flt 2) rid check_in check_out st \<longrightarrow>
        handleCreateBooking lib flt p st =
          (Sent 201 (BookingJoined (Some (new_booking v (fresh_id (map b_id (bookings st)))))
             (guest_summary st gid) (room_summary st rid)),
           st\<lparr>bookings := bookings st @ [new_booking v (fresh_id (map b_id (bookings st)))]\<rparr>))"
proof (intro conjI impI)
  note run = handleCreateBooking_checked [OF assms(1-10)]
  {
    assume a: "flt 2 \<noteq> Healthy \<and> flt 4 \<noteq> Throwing"
    then have nc: "\<not> conflict_found (flt 2) rid check_in check_out st"
      by (simp add: conflict_found_faulty)
    from a nc assms(11) show "fst (handleCreateBooking lib flt p st) =
          Sent 201 (BookingJoined (Some (new_booking v (fresh_id (map b_id (bookings st)))))
            (guest_summary st gid) (room_summary st rid))"
      by (cases "flt 4") (simp_all add: run)
    from a nc assms(11) show "bookings (snd (handleCreateBooking lib flt p st)) =
            bookings st @ [new_booking v (fresh_id (map b_id (bookings st)))]"
      by (cases "flt 4") (simp_all add: run)
  }
  assume "flt 4 = Failing \<and> \<not> conflict_found (flt 2) rid check_in check_out st"
  with assms(11) show "handleCreateBooking lib flt p st =
          (Sent 201 (BookingJoined (Some (new_booking v (fresh_id (map b_id (bookings st)))))
             (guest_summary st gid) (room_summary st rid)),
           st\<lparr>bookings := bookings st @ [new_booking v (fresh_id (map b_id (bookings st)))]\<rparr>)"
    by (simp add: run)
qed

theorem handleCreateBooking_best_effort_witness:
  "handleCreateBooking lib0 (\<lambda>i. if i = 2 then Failing else Healthy)
      (booking_request 1 1 ''2030-01-18'' ''2030-01-20'') stale_store =
     (Sent 201 (BookingJoined
        (Some \<lparr>b_id = 2, guest_id = 1, room_id = 1, check_in_date = 18, check_out_date = 20,
                total_amount = 250, status = ''booked'',
                actual_check_in = None, actual_check_out = None\<rparr>)
        (Some (1, ''Ada Park'', ''ada@example.com'')) (Some (1, ''101'', ''single''))),
      stale_store
        \<lparr>bookings := [booking1,
           \<lparr>b_id = 2, guest_id = 1, room_id = 1, check_in_date = 18, check_out_date = 20,
             total_amount = 250, status = ''booked'',
             actual_check_in = None, actual_check_out = None\<rparr>],
         rooms := [room101, room102]\<rparr>)
   \<and> filter (conflict_filter 1 18 20) (bookings stale_store) = [booking1]
   \<and> handleCreateBooking lib0 (\<lambda>i. if i = 4 then Failing else Healthy)
      (booking_request 1 1 ''2030-01-18'' ''2030-01-20'') empty_hotel =
     (Sent 201 (BookingJoined
        (Some \<lparr>b_id = 1, guest_id = 1, room_id = 1, check_in_date = 18, check_out_date = 20,
                total_amount = 250, status = ''booked'',
                actual_check_in = None, actual_check_out = None\<rparr>)
        (Some (1, ''Ada Park'', ''ada@example.com'')) (Some (1, ''101'', ''single''))),
      empty_hotel
        \<lparr>bookings :=
           [\<lparr>b_id = 1, guest_id = 1, room_id = 1, check_in_date = 18, check_out_date = 20,
              total_amount = 250, status = ''booked'',
              actual_check_in = None, actual_check_out = None\<rparr>]\<rparr>)
   \<and> rooms empty_hotel = [room101\<lparr>is_available := True\<rparr>, room102]"
proof -
  let ?skip = "\<lambda>i::nat. if i = 2 then Failing else Healthy"
  let ?lost = "\<lambda>i::nat. if i = 4 then Failing else Healthy"
  have gs: "filter (\<lambda>x. g_id x = 1) (guests stale_store) = [ada]"
    and rs: "filter (\<lambda>x. r_id x = 1) (rooms stale_store) = [room101\<lparr>is_available := True\<rparr>]"
    and ge: "filter (\<lambda>x. g_id x = 1) (guests empty_hotel) = [ada]"
    and re: "filter (\<lambda>x. r_id x = 1) (rooms empty_hotel) = [room101\<lparr>is_available := True\<rparr>]"
    by (simp_all add: stale_store_def empty_hotel_def example_rows)
  have found: "filter (conflict_filter 1 18 20) (bookings stale_store) = [booking1]"
    by (simp add: conflict_filter_def active_statuses_def stale_store_def example_rows)
  have none: "\<not> conflict_found (?lost 2) 1 18 20 empty_hotel"
    by (rule conflict_found_never)
  note skipped = handleCreateBooking_best_effort [OF request_18_20, of 1 1 18 20 ?skip
      stale_store ada "room101\<lparr>is_available := True\<rparr>"]
  note lost = handleCreateBooking_best_effort [OF request_18_20, of 1 1 18 20 ?lost
      empty_hotel ada "room101\<lparr>is_available := True\<rparr>"]
  have a: "fst (handleCreateBooking lib0 ?skip
        (booking_request 1 1 ''2030-01-18'' ''2030-01-20'') stale_store) =
      Sent 201 (BookingJoined
        (Some \<lparr>b_id = 2, guest_id = 1, room_id = 1, check_in_date = 18, check_out_date = 20,
                total_amount = 250, status = ''booked'',
                actual_check_in = None, actual_check_out = None\<rparr>)
        (Some (1, ''Ada Park'', ''ada@example.com'')) (Some (1, ''101'', ''single'')))"
    using skipped gs rs
    by (simp add: vint_def vdate_def vnum_def or_else_def new_booking_def fresh_id_def
        guest_summary_def room_summary_def stale_store_def example_rows)
  have b: "snd (handleCreateBooking lib0 ?skip
        (booking_request 1 1 ''2030-01-18'' ''2030-01-20'') stale_store) =
      stale_store
        \<lparr>bookings := [booking1,
           \<lparr>b_id = 2, guest_id = 1, room_id = 1, check_in_date = 18, check_out_date = 20,
             total_amount = 250, status = ''booked'',
             actual_check_in = None, actual_check_out = None\<rparr>],
         rooms := [room101, room102]\<rparr>"
    using handleCreateBooking_checked [OF request_18_20, of 1 1 18 20 ?skip
      stale_store ada "room101\<lparr>is_available := True\<rparr>"] gs rs
    by (simp add: vint_def vdate_def vnum_def or_else_def new_booking_def fresh_id_def
        conflict_found_faulty stale_store_def example_rows)
  have c: "handleCreateBooking lib0 ?lost
      (booking_request 1 1 ''2030-01-18'' ''2030-01-20'') empty_hotel =
     (Sent 201 (BookingJoined
        (Some \<lparr>b_id = 1, guest_id = 1, room_id = 1, check_in_date = 18, check_out_date = 20,
                total_amount = 250, status = ''booked'',
                actual_check_in = None, actual_check_out = None\<rparr>)
        (Some (1, ''Ada Park'', ''ada@example.com'')) (Some (1, ''101'', ''single''))),
      empty_hotel
        \<lparr>bookings :=
           [\<lparr>b_id = 1, guest_id = 1, room_id = 1, check_in_date = 18, check_out_date = 20,
              total_amount = 250, status = ''booked'',
              actual_check_in = None, actual_check_out = None\<rparr>]\<rparr>)"
    using lost ge re none
    by (simp add: vint_def vdate_def vnum_def or_else_def new_booking_def fresh_id_def
        guest_summary_def room_summary_def empty_hotel_def example_rows)
  have d: "rooms empty_hotel = [room101\<lparr>is_available := True\<rparr>, room102]"
    by (simp add: empty_hotel_def)
  show ?thesis
    using a b c d found by (simp add: prod_eq_iff)
qed

lemma handleCreateBooking_never_conflict:
  "fst (handleCreateBooking lib flt p st) \<noteq>
     Sent 400 (Error ''Room is already booked for these dates'')"
  by (cases "flt 3"; cases "flt 4")
     (auto simp: handleCreateBooking_def Let_def insert_row_def update_rows_def
        conflict_found_never split: sum.splits reply.splits option.splits if_splits)

text \<open>
  C1, at an input where the code and the claim part. Room 101 is marked available and
  carries one active booking for days 15 to 18. A request for days 18 to 20 (its check-in
  is the check-out of that booking) passes the guest, room and availability checks, and
  the active booking satisfies the inclusive overlap test (its check-in is not after day
  20 and its check-out is not before day 18), so the claim asks for a conflict. With
  every call of the store answered, the handler inserts the booking and answers 201: the
  operands of its conflict query are \<^verbatim>\<open>Date\<close> objects rendered by a template literal, the
  store does not read them, the query comes back with an error and the check is passed
  over.
\<close>

theorem handleCreateBooking_accepts_overlap:
  "handleCreateBooking lib0 (\<lambda>_. Healthy) (booking_request 1 1 ''2030-01-18'' ''2030-01-20'')
      stale_store =
     (Sent 201 (BookingJoined
        (Some \<lparr>b_id = 2, guest_id = 1, room_id = 1, check_in_date = 18, check_out_date = 20,
                total_amount = 250, status = ''booked'',
                actual_check_in = None, actual_check_out = None\<rparr>)
        (Some (1, ''Ada Park'', ''ada@example.com'')) (Some (1, ''101'', ''single''))),
      stale_store
        \<lparr>bookings := [booking1,
           \<lparr>b_id = 2, guest_id = 1, room_id = 1, check_in_date = 18, check_out_date = 20,
             total_amount = 250, status = ''booked'',
             actual_check_in = None, actual_check_out = None\<rparr>],
         rooms := [room101, room102]\<rparr>)
   \<and> validate lib0 bookingSchema (booking_request 1 1 ''2030-01-18'' ''2030-01-20'') =
     Inr [(''guest_id'', VNum 1), (''room_id'', VNum 1), (''check_in_date'', VDate 18),
          (''check_out_date'', VDate 20), (''total_amount'', VNum 250)]
   \<and> filter (\<lambda>b. room_id b = 1 \<and> status b \<in> set active_statuses \<and>
               check_in_date b \<le> 20 \<and> check_out_date b \<ge> 18) (bookings stale_store) =
     [booking1]
   \<and> check_in_date booking1 = 15 \<and> check_out_date booking1 = 18"
proof -
  have g1: "filter (\<lambda>x. g_id x = 1) (guests stale_store) = [ada]"
    and r1: "filter (\<lambda>x. r_id x = 1) (rooms stale_store) = [room101\<lparr>is_available := True\<rparr>]"
    by (simp_all add: stale_store_def example_rows)
  have "handleCreateBooking lib0 (\<lambda>_. Healthy)
      (booking_request 1 1 ''2030-01-18'' ''2030-01-20'') stale_store =
     (Sent 201 (BookingJoined
        (Some \<lparr>b_id = 2, guest_id = 1, room_id = 1, check_in_date = 18, check_out_date = 20,
                total_amount = 250, status = ''booked'',
                actual_check_in = None, actual_check_out = None\<rparr>)
        (Some (1, ''Ada Park'', ''ada@example.com'')) (Some (1, ''101'', ''single''))),
      stale_store
        \<lparr>bookings := [booking1,
           \<lparr>b_id = 2, guest_id = 1, room_id = 1, check_in_date = 18, check_out_date = 20,
             total_amount = 250, status = ''booked'',
             actual_check_in = None, actual_check_out = None\<rparr>],
         rooms := [room101, room102]\<rparr>)"
    using handleCreateBooking_checked [OF request_18_20, of 1 1 18 20 "\<lambda>_. Healthy" stale_store ada
        "room101\<lparr>is_available := True\<rparr>"] g1 r1
    by (simp add: vint_def vdate_def vnum_def or_else_def new_booking_def fresh_id_def
        guest_summary_def room_summary_def conflict_found_never stale_store_def example_rows)
  moreover have "filter (\<lambda>b. room_id b = 1 \<and> status b \<in> set active_statuses \<and>
               check_in_date b \<le> 20 \<and> check_out_date b \<ge> 18) (bookings stale_store) =
     [booking1]"
    by (simp add: stale_store_def example_rows active_statuses_def)
  moreover have "check_in_date booking1 = 15 \<and> check_out_date booking1 = 18"
    by (simp add: example_rows)
  ultimately show ?thesis
    using request_18_20 by simp
qed

section \<open>Delete guards\<close>

lemma has_rows_filter: "has_rows (Some (filter P xs)) = (\<exists>x \<in> set xs. P x)"
proof (cases "filter P xs")
  case Nil
  then show ?thesis by (simp add: filter_empty_conv)
next
  case (Cons a as)
  then have "filter P xs \<noteq> []" by simp
  then have "\<exists>x \<in> set xs. P x" by (simp add: filter_empty_conv)
  then show ?thesis using Cons by simp
qed

text \<open>
  When the guard query on the bookings is answered with its rows: while a guest (a room)
  is referenced by a booking with status \<open>booked\<close> or \<open>checked_in\<close>, the delete is
  refused with the guard error and the store is left as it was; when no booking that
  references it has one of the two statuses (after a cancellation, say) and the store
  accepts the delete, the answer is 200 and the entity is removed.
\<close>

lemma delete_guards_answered:
  "(flt 0 = Healthy \<and> (\<exists>b \<in> set (bookings st). guest_id b = gid \<and> status b \<in> set active_statuses) \<longrightarrow>
      handleDeleteGuest flt (Some gid) st =
        (Sent 400 (Error ''Cannot delete guest with active bookings''), st))
   \<and> (flt 0 = Healthy \<and> flt 1 = Healthy \<and>
       \<not> (\<exists>b \<in> set (bookings st). guest_id b = gid \<and> status b \<in> set active_statuses) \<longrightarrow>
      handleDeleteGuest flt (Some gid) st =
        (Sent 200 (Message ''Guest deleted successfully''),
         st\<lparr>guests := filter (\<lambda>g. g_id g \<noteq> gid) (guests st)\<rparr>))
   \<and> (flt 0 = Healthy \<and> (\<exists>b \<in> set (bookings st). room_id b = rid \<and> status b \<in> set active_statuses) \<longrightarrow>
      handleDeleteRoom flt (Some rid) st =
        (Sent 400 (Error ''Cannot delete room with active bookings''), st))
   \<and> (flt 0 = Healthy \<and> flt 1 = Healthy \<and>
       \<not> (\<exists>b \<in> set (bookings st). room_id b = rid \<and> status b \<in> set active_statuses) \<longrightarrow>
      handleDeleteRoom flt (Some rid) st =
        (Sent 200 (Message ''Room deleted successfully''),
         st\<lparr>rooms := filter (\<lambda>r. r_id r \<noteq> rid) (rooms st)\<rparr>))"
  by (simp add: handleDeleteGuest_def handleDeleteRoom_def select_def has_rows_filter
      delete_rows_def)

text \<open>
  C8, at an input where the code and the claim part. Guest 1 and room 101 are
  referenced by booking 1, whose status is \<open>booked\<close>, so the claim asks that a delete of
  either is refused and the entity stays stored. The delete handlers bind the error of
  the guard query (\<^verbatim>\<open>bookingError\<close>) and never read it: when that query comes back with
  an error, \<^verbatim>\<open>activeBookings\<close> is null, the guard is passed over, the delete is issued,
  and the answer is 200 with the guest (the room) gone from the store.
\<close>

theorem delete_guard_passed_over:
  "handleDeleteGuest (\<lambda>i. if i = 0 then Failing else Healthy) (Some 1) stale_store =
     (Sent 200 (Message ''Guest deleted successfully''), stale_store\<lparr>guests := []\<rparr>)
   \<and> guests stale_store = [ada] \<and> g_id ada = 1
   \<and> bookings stale_store = [booking1] \<and> guest_id booking1 = 1 \<and> status booking1 = ''booked''
   \<and> handleDeleteRoom (\<lambda>i. if i = 0 then Failing else Healthy) (Some 1) stale_store =
     (Sent 200 (Message ''Room deleted successfully''), stale_store\<lparr>rooms := [room102]\<rparr>)
   \<and> r_id room101 = 1 \<and> room_id booking1 = 1"
  by (simp add: handleDeleteGuest_def handleDeleteRoom_def select_def delete_rows_def
      stale_store_def example_rows)

lemma delete_guards_answered_example:
  "handleDeleteGuest (\<lambda>_. Healthy) (Some 1) stale_store =
     (Sent 400 (Error ''Cannot delete guest with active bookings''), stale_store)
   \<and> handleDeleteRoom (\<lambda>_. Healthy) (Some 1) stale_store =
     (Sent 400 (Error ''Cannot delete room with active bookings''), stale_store)
   \<and> fst (handleCancelBooking (\<lambda>_. Healthy) (Some 1) stale_store) =
       Sent 200 (Message ''Booking cancelled successfully'')
   \<and> handleDeleteGuest (\<lambda>_. Healthy) (Some 1)
       (snd (handleCancelBooking (\<lambda>_. Healthy) (Some 1) stale_store)) =
     (Sent 200 (Message ''Guest deleted successfully''),
      snd (handleCancelBooking (\<lambda>_. Healthy) (Some 1) stale_store)\<lparr>guests := []\<rparr>)
   \<and> handleDeleteRoom (\<lambda>_. Healthy) (Some 1)
       (snd (handleCancelBooking (\<lambda>_. Healthy) (Some 1) stale_store)) =
     (Sent 200 (Message ''Room deleted successfully''),
      snd (handleCancelBooking (\<lambda>_. Healthy) (Some 1) stale_store)\<lparr>rooms := [room102]\<rparr>)"
proof -
  let ?st = "snd (handleCancelBooking (\<lambda>_. Healthy) (Some 1) stale_store)"
  have cancelled: "handleCancelBooking (\<lambda>_. Healthy) (Some 1) stale_store =
      (Sent 200 (Message ''Booking cancelled successfully''),
       \<lparr>guests = [ada], rooms = [room101\<lparr>is_available := True\<rparr>, room102],
        bookings = [booking1\<lparr>status := ''cancelled''\<rparr>]\<rparr>)"
    by (simp add: handleCancelBooking_def single_select update_rows_def stale_store_def
        example_rows)
  have active: "\<exists>b \<in> set (bookings stale_store). guest_id b = 1 \<and> status b \<in> set active_statuses"
    "\<exists>b \<in> set (bookings stale_store). room_id b = 1 \<and> status b \<in> set active_statuses"
    by (simp_all add: stale_store_def example_rows active_statuses_def)
  have idle: "\<not> (\<exists>b \<in> set (bookings ?st). guest_id b = 1 \<and> status b \<in> set active_statuses)"
    "\<not> (\<exists>b \<in> set (bookings ?st). room_id b = 1 \<and> status b \<in> set active_statuses)"
    by (simp_all add: cancelled example_rows active_statuses_def)
  have rest: "filter (\<lambda>g. g_id g \<noteq> 1) (guests ?st) = []"
    "filter (\<lambda>r. r_id r \<noteq> 1) (rooms ?st) = [room102]"
    by (simp_all add: cancelled example_rows)
  show ?thesis
    using delete_guards_answered [of "\<lambda>_. Healthy" stale_store 1 1]
      delete_guards_answered [of "\<lambda>_. Healthy" ?st 1 1] active idle rest cancelled
    by simp
qed

section \<open>CreateRoom\<close>

lemma validate_unknown_key:
  assumes "k \<in> set (map fst p)" and "k \<notin> set (map fst ks)"
  shows "\<exists>ds. validate lib (JoiObject ks n) p = Inl ds"
proof -
  from assms have "unknown_keys ks p \<noteq> []"
    by (auto simp: unknown_keys_def filter_empty_conv)
  then show ?thesis
    by (cases "check_keys lib p ks []"; cases "unknown_keys ks p") simp_all
qed

lemma roomSchema_rejects_is_available:
  assumes "''is_available'' \<in> set (map fst p)"
  shows "\<exists>ds. validate lib roomSchema p = Inl ds"
  unfolding roomSchema_def using assms by (rule validate_unknown_key) simp

lemma handleCreateRoom_created:
  assumes "fst (handleCreateRoom lib flt roomData st) = Sent 201 body"
  shows "\<exists>v. validate lib roomSchema roomData = Inr v \<and>
           body = RoomData (Some (new_room v (fresh_id (map r_id (rooms st))))) \<and>
           rooms (snd (handleCreateRoom lib flt roomData st)) =
             rooms st @ [new_room v (fresh_id (map r_id (rooms st)))]"
  using assms
  by (cases "flt 1")
     (auto simp: handleCreateRoom_def insert_row_def
        split: sum.splits reply.splits if_splits)

text \<open>
  C9. A body with an \<open>is_available\<close> key fails the validation of CreateRoom (the
  schema has no such key), whatever its other keys are. Every room that CreateRoom
  answers with status 201 is appended to the table with \<open>is_available\<close> true, and a
  successful answer is always such a 201 for a body without the key.
\<close>

theorem handleCreateRoom_always_available:
  "(''is_available'' \<in> set (map fst roomData) \<longrightarrow>
      (\<exists>ds. handleCreateRoom lib flt roomData st = (Sent 400 (ValidationFailed ds), st)))
   \<and> (fst (handleCreateRoom lib flt roomData st) = Sent 201 body \<longrightarrow>
      (\<exists>r. body = RoomData (Some r) \<and> is_available r \<and>
           rooms (snd (handleCreateRoom lib flt roomData st)) = rooms st @ [r]))
   \<and> (succeeded (fst (handleCreateRoom lib flt roomData st)) \<longrightarrow>
      (\<exists>r. fst (handleCreateRoom lib flt roomData st) = Sent 201 (RoomData (Some r)) \<and>
           is_available r \<and> ''is_available'' \<notin> set (map fst roomData)))"
proof (intro conjI impI)
  assume "''is_available'' \<in> set (map fst roomData)"
  then obtain ds where "validate lib roomSchema roomData = Inl ds"
    using roomSchema_rejects_is_available by blast
  then show "\<exists>ds. handleCreateRoom lib flt roomData st = (Sent 400 (ValidationFailed ds), st)"
    by (simp add: handleCreateRoom_def)
next
  assume "fst (handleCreateRoom lib flt roomData st) = Sent 201 body"
  from handleCreateRoom_created [OF this]
  show "\<exists>r. body = RoomData (Some r) \<and> is_available r \<and>
           rooms (snd (handleCreateRoom lib flt roomData st)) = rooms st @ [r]"
    by (auto simp: new_room_def)
next
  assume ok: "succeeded (fst (handleCreateRoom lib flt roomData st))"
  then obtain body where b: "fst (handleCreateRoom lib flt roomData st) = Sent 201 body"
    by (cases "flt 1")
       (auto simp: handleCreateRoom_def insert_row_def
          split: sum.splits reply.splits if_splits)
  from handleCreateRoom_created [OF b] obtain v where
    v: "validate lib roomSchema roomData = Inr v"
      "body = RoomData (Some (new_room v (fresh_id (map r_id (rooms st)))))"
    by blast
  have "''is_available'' \<notin> set (map fst roomData)"
  proof
    assume "''is_available'' \<in> set (map fst roomData)"
    then obtain ds where "validate lib roomSchema roomData = Inl ds"
      using roomSchema_rejects_is_available by blast
    with v(1) show False by simp
  qed
  with b v(2) show "\<exists>r. fst (handleCreateRoom lib flt roomData st) = Sent 201 (RoomData (Some r)) \<and>
           is_available r \<and> ''is_available'' \<notin> set (map fst roomData)"
    by (simp add: new_room_def)
qed

lemma room_request_created:
  "handleCreateRoom lib0 (\<lambda>_. Healthy) room_request lifecycle_store =
     (Sent 201 (RoomData (Some \<lparr>r_id = 3, room_number = ''103'', room_type = ''suite'',
         capacity = 3, price_per_night = 120, is_available = True\<rparr>)),
      lifecycle_store\<lparr>rooms := [room101, room102,
        \<lparr>r_id = 3, room_number = ''103'', room_type = ''suite'',
         capacity = 3, price_per_night = 120, is_available = True\<rparr>]\<rparr>)"
  by (simp add: handleCreateRoom_def room_request_valid single_select insert_row_def
      new_room_def fresh_id_def vstr_def vint_def vnum_def or_else_def lifecycle_store_def
      example_rows)

theorem handleCreateRoom_always_available_witness:
  "(\<exists>ds. handleCreateRoom lib0 (\<lambda>_. Healthy) (room_request @ [(''is_available'', JBool False)])
       lifecycle_store = (Sent 400 (ValidationFailed ds), lifecycle_store))
   \<and> fst (handleCreateRoom lib0 (\<lambda>_. Healthy) room_request lifecycle_store) =
       Sent 201 (RoomData (Some \<lparr>r_id = 3, room_number = ''103'', room_type = ''suite'',
         capacity = 3, price_per_night = 120, is_available = True\<rparr>))
   \<and> (\<exists>r. RoomData (Some \<lparr>r_id = 3, room_number = ''103'', room_type = ''suite'',
         capacity = 3, price_per_night = 120, is_available = True\<rparr>) = RoomData (Some r) \<and>
         is_available r \<and>
         rooms (snd (handleCreateRoom lib0 (\<lambda>_. Healthy) room_request lifecycle_store)) =
           rooms lifecycle_store @ [r])
   \<and> succeeded (fst (handleCreateRoom lib0 (\<lambda>_. Healthy) room_request lifecycle_store))
   \<and> ''is_available'' \<notin> set (map fst room_request)"
proof -
  have key: "''is_available'' \<in> set (map fst (room_request @ [(''is_available'', JBool False)]))"
    by simp
  have ok: "fst (handleCreateRoom lib0 (\<lambda>_. Healthy) room_request lifecycle_store) =
       Sent 201 (RoomData (Some \<lparr>r_id = 3, room_number = ''103'', room_type = ''suite'',
         capacity = 3, price_per_night = 120, is_available = True\<rparr>))"
    by (simp add: room_request_created)
  show ?thesis
    using handleCreateRoom_always_available [of "room_request @ [(''is_available'', JBool False)]"
        lib0 "\<lambda>_. Healthy" lifecycle_store]
      handleCreateRoom_always_available [of room_request lib0 "\<lambda>_. Healthy" lifecycle_store
        "RoomData (Some \<lparr>r_id = 3, room_number = ''103'', room_type = ''suite'',
         capacity = 3, price_per_night = 120, is_available = True\<rparr>)"]
      key ok
    by auto
qed

section \<open>UpdateBooking\<close>









section \<open>What a validation error carries\<close>

lemma check_keys_first_violated:
  "(check_keys lib p ks acc = Inl d \<longrightarrow>
      violated_keys lib p ks acc \<noteq> [] \<and> fst d = hd (violated_keys lib p ks acc))
   \<and> (check_keys lib p ks acc = Inr v \<longrightarrow> violated_keys lib p ks acc = [])"
proof (induction ks arbitrary: acc)
  case Nil
  then show ?case by simp
next
  case (Cons a ks)
  obtain k sc pr where a: "a = (k, sc, pr)"
    by (cases a)
  show ?case
  proof (cases "check_key lib (map_of acc) sc pr (map_of p k)")
    case (Inl e)
    then show ?thesis by (auto simp: a)
  next
    case (Inr c)
    then show ?thesis
      using Cons.IH [of acc] Cons.IH [of "acc @ [(k, the c)]"]
      by (cases c) (simp_all add: a)
  qed
qed

lemma validate_first_violated:
  "(validate lib S p = Inl ds \<longrightarrow>
      (\<exists>d. ds = [d] \<and> all_violated_fields lib S p \<noteq> [] \<and>
           fst d = hd (all_violated_fields lib S p)))
   \<and> (validate lib S p = Inr v \<longrightarrow> all_violated_fields lib S p = [])"
proof (cases S)
  case (JoiObject ks n)
  show ?thesis
  proof (cases "check_keys lib p ks []")
    case (Inl d)
    with check_keys_first_violated [of lib p ks "[]" d]
    show ?thesis by (cases d) (auto simp: JoiObject)
  next
    case (Inr w)
    with check_keys_first_violated [of lib p ks "[]" _ w]
    have none: "violated_keys lib p ks [] = []" by simp
    show ?thesis
      by (cases "unknown_keys ks p") (auto simp: JoiObject Inr none)
  qed
qed

text \<open>
  C6, as the code has it. The handlers call \<^verbatim>\<open>schema.validate(data)\<close> with no options,
  so the run stops at the first violation. Whenever validation fails, the error carries
  exactly one detail; its path is the first of the violated fields (schema keys in schema
  order, then unknown keys, then the object's own \<open>value\<close>), and each of the six create
  and update handlers answers 400 with that one detail and writes nothing. Validation
  succeeds only when no field is violated.
\<close>

theorem validation_reports_first_violation_only:
  "(validate lib S p = Inl ds \<longrightarrow>
      (\<exists>d. ds = [d] \<and> all_violated_fields lib S p \<noteq> [] \<and>
           fst d = hd (all_violated_fields lib S p)))
   \<and> (validate lib S p = Inr v \<longrightarrow> all_violated_fields lib S p = [])
   \<and> (validate lib guestSchema p = Inl ds \<longrightarrow>
        handleCreateGuest lib flt p st = (Sent 400 (ValidationFailed ds), st))
   \<and> (validate lib updateGuestSchema p = Inl ds \<longrightarrow>
        handleUpdateGuest lib flt (Some i) p st = (Sent 400 (ValidationFailed ds), st))
   \<and> (validate lib roomSchema p = Inl ds \<longrightarrow>
        handleCreateRoom lib flt p st = (Sent 400 (ValidationFailed ds), st))
   \<and> (validate lib updateRoomSchema p = Inl ds \<longrightarrow>
        handleUpdateRoom lib flt (Some i) p st = (Sent 400 (ValidationFailed ds), st))
   \<and> (validate lib bookingSchema p = Inl ds \<longrightarrow>
        handleCreateBooking lib flt p st = (Sent 400 (ValidationFailed ds), st))
   \<and> (validate lib updateBookingSchema p = Inl ds \<longrightarrow>
        handleUpdateBooking lib flt (Some i) p st = (Sent 400 (ValidationFailed ds), st))"
  using validate_first_violated [of lib S p ds v]
  by (simp add: handleCreateGuest_def handleUpdateGuest_def handleCreateRoom_def
      handleUpdateRoom_def handleCreateBooking_def handleUpdateBooking_def)

lemma bad_room_request_details:
  "validate lib0 roomSchema bad_room_request = Inl [(''room_number'', string_empty)]"
  by (simp add: roomSchema_def bad_room_request_def check_key_def)

lemma bad_room_request_violations:
  "all_violated_fields lib0 roomSchema bad_room_request =
     [''room_number'', ''room_type'', ''capacity'', ''price_per_night'']"
  by (simp add: roomSchema_def bad_room_request_def check_key_def unknown_keys_def
      room_types_def max_safe_def round_to_numeral round_to_def lib0_def)

text \<open>
  C6 as stated does not hold: a body for CreateRoom that violates a rule in each of its
  four fields is answered with the detail of \<open>room_number\<close> alone.
\<close>

theorem validation_all_fields_counterexample:
  "handleCreateRoom lib0 (\<lambda>_. Healthy) bad_room_request lifecycle_store =
     (Sent 400 (ValidationFailed [(''room_number'', string_empty)]), lifecycle_store)
   \<and> all_violated_fields lib0 roomSchema bad_room_request =
     [''room_number'', ''room_type'', ''capacity'', ''price_per_night'']
   \<and> \<not> set (all_violated_fields lib0 roomSchema bad_room_request)
         \<subseteq> fst ` set [(''room_number'', string_empty)]"
  by (simp add: handleCreateRoom_def bad_room_request_details bad_room_request_violations)

theorem validation_reports_first_violation_only_witness:
  "validate lib0 roomSchema bad_room_request = Inl [(''room_number'', string_empty)]
   \<and> (\<exists>d. [(''room_number'', string_empty)] = [d] \<and>
          all_violated_fields lib0 roomSchema bad_room_request \<noteq> [] \<and>
          fst d = hd (all_violated_fields lib0 roomSchema bad_room_request))
   \<and> handleCreateRoom lib0 (\<lambda>_. Healthy) bad_room_request lifecycle_store =
       (Sent 400 (ValidationFailed [(''room_number'', string_empty)]), lifecycle_store)
   \<and> all_violated_fields lib0 roomSchema room_request = []
   \<and> handleCreateGuest lib0 (\<lambda>_. Healthy) [] lifecycle_store =
       (Sent 400 (ValidationFailed [(''name'', any_required)]), lifecycle_store)
   \<and> handleCreateBooking lib0 (\<lambda>_. Healthy) [] lifecycle_store =
       (Sent 400 (ValidationFailed [(''guest_id'', any_required)]), lifecycle_store)
   \<and> handleUpdateGuest lib0 (\<lambda>_. Healthy) (Some 1) [] lifecycle_store =
       (Sent 400 (ValidationFailed [(''value'', object_min)]), lifecycle_store)
   \<and> handleUpdateRoom lib0 (\<lambda>_. Healthy) (Some 1) [] lifecycle_store =
       (Sent 400 (ValidationFailed [(''value'', object_min)]), lifecycle_store)
   \<and> handleUpdateBooking lib0 (\<lambda>_. Healthy) (Some 1) [] lifecycle_store =
       (Sent 400 (ValidationFailed [(''value'', object_min)]), lifecycle_store)"
proof -
  have empty: "validate lib0 guestSchema [] = Inl [(''name'', any_required)]"
    "validate lib0 bookingSchema [] = Inl [(''guest_id'', any_required)]"
    "validate lib0 updateGuestSchema [] = Inl [(''value'', object_min)]"
    "validate lib0 updateRoomSchema [] = Inl [(''value'', object_min)]"
    "validate lib0 updateBookingSchema [] = Inl [(''value'', object_min)]"
    by (simp_all add: guestSchema_def bookingSchema_def updateGuestSchema_def
        updateRoomSchema_def updateBookingSchema_def check_key_def unknown_keys_def)
  show ?thesis
    using validation_reports_first_violation_only [of lib0 roomSchema bad_room_request
        "[(''room_number'', string_empty)]" _ "\<lambda>_. Healthy" lifecycle_store]
      validation_reports_first_violation_only [of lib0 roomSchema room_request _
        "[(''room_number'', VStr ''103''), (''room_type'', VStr ''suite''),
          (''capacity'', VNum 3), (''price_per_night'', VNum 120)]"]
      validation_reports_first_violation_only [of lib0 guestSchema "[]"
        "[(''name'', any_required)]" _ "\<lambda>_. Healthy" lifecycle_store]
      validation_reports_first_violation_only [of lib0 bookingSchema "[]"
        "[(''guest_id'', any_required)]" _ "\<lambda>_. Healthy" lifecycle_store]
      validation_reports_first_violation_only [of lib0 updateRoomSchema "[]"
        "[(''value'', object_min)]" _ "\<lambda>_. Healthy" lifecycle_store 1]
      bad_room_request_details room_request_valid empty
    by simp
qed

end
